theory Spec2Isabelle
  imports Complex_Main "HOL-Library.Word" "HOL-Library.AList" "HOL-Library.Char_ord"
    "HOL-Library.List_Lexorder" "HOL-Library.Multiset"
begin

unbundle bit_operations_syntax

section \<open>Frame codec of \<^verbatim>\<open>zigate/core.py\<close>\<close>

text \<open>
  A Python \<^verbatim>\<open>bytes\<close> or \<^verbatim>\<open>bytearray\<close> value is a list of 8-bit words; iterating
  over it yields its elements in order.
\<close>

type_synonym byte = "8 word"

text \<open>
  \<^verbatim>\<open>ZiGate.zigate_encode\<close>: the loop over \<^verbatim>\<open>data\<close> with the accumulator
  \<^verbatim>\<open>encoded\<close>; a byte below \<^verbatim>\<open>0x10\<close> is extended as the pair
  \<^verbatim>\<open>[0x02, 0x10 ^ b]\<close>, any other byte is appended.
\<close>

fun zigate_encode_loop :: "byte list \<Rightarrow> byte list \<Rightarrow> byte list" where
  "zigate_encode_loop encoded [] = encoded"
| "zigate_encode_loop encoded (b # bs) =
     (if b < 0x10 then zigate_encode_loop (encoded @ [0x02, 0x10 XOR b]) bs
      else zigate_encode_loop (encoded @ [b]) bs)"

definition zigate_encode :: "byte list \<Rightarrow> byte list" where
  "zigate_encode data = zigate_encode_loop [] data"

text \<open>
  \<^verbatim>\<open>ZiGate.zigate_decode\<close>: the loop carries the flag \<^verbatim>\<open>flip\<close> and the
  accumulator \<^verbatim>\<open>decoded\<close>.
\<close>

fun zigate_decode_loop :: "bool \<Rightarrow> byte list \<Rightarrow> byte list \<Rightarrow> byte list" where
  "zigate_decode_loop flip decoded [] = decoded"
| "zigate_decode_loop flip decoded (b # bs) =
     (if flip then zigate_decode_loop False (decoded @ [b XOR 0x10]) bs
      else if b = 0x02 then zigate_decode_loop True decoded bs
      else zigate_decode_loop False (decoded @ [b]) bs)"

definition zigate_decode :: "byte list \<Rightarrow> byte list" where
  "zigate_decode data = zigate_decode_loop False [] data"

text \<open>
  The wrapping done by \<^verbatim>\<open>send_data\<close> on the encoded message:
  \<^verbatim>\<open>enc_msg.insert(0, 0x01); enc_msg.append(0x03)\<close>.
\<close>

definition wrap_frame :: "byte list \<Rightarrow> byte list" where
  "wrap_frame enc_msg = 0x01 # enc_msg @ [0x03]"

text \<open>
  \<^verbatim>\<open>ZiGate.checksum(*args)\<close>: an argument is either an \<^verbatim>\<open>int\<close>, XORed into
  the running value as it is, or a byte sequence, XORed in byte by byte. The running
  value is a Python integer, hence unbounded.
\<close>

datatype checksum_arg = IntArg int | BytesArg "byte list"

fun checksum_bytes :: "int \<Rightarrow> byte list \<Rightarrow> int" where
  "checksum_bytes chcksum [] = chcksum"
| "checksum_bytes chcksum (x # xs) = checksum_bytes (chcksum XOR uint x) xs"

fun checksum_loop :: "int \<Rightarrow> checksum_arg list \<Rightarrow> int" where
  "checksum_loop chcksum [] = chcksum"
| "checksum_loop chcksum (IntArg n # args) = checksum_loop (chcksum XOR n) args"
| "checksum_loop chcksum (BytesArg xs # args) = checksum_loop (checksum_bytes chcksum xs) args"

definition checksum :: "checksum_arg list \<Rightarrow> int" where
  "checksum args = checksum_loop 0 args"

section \<open>Python values, dictionaries and \<^verbatim>\<open>struct\<close> helpers\<close>

text \<open>
  The values stored in a device's \<^verbatim>\<open>info\<close> dictionary and in attribute
  dictionaries, as far as the modelled code inspects them.
\<close>

datatype pyval = PNone | PStr string | PInt int | PBytes "byte list"

text \<open>Python truthiness: \<^verbatim>\<open>None\<close>, \<^verbatim>\<open>''\<close>, \<^verbatim>\<open>0\<close> and \<^verbatim>\<open>b''\<close> are false.\<close>

fun truthy :: "pyval \<Rightarrow> bool" where
  "truthy PNone = False"
| "truthy (PStr s) = (s \<noteq> [])"
| "truthy (PInt i) = (i \<noteq> 0)"
| "truthy (PBytes bs) = (bs \<noteq> [])"

text \<open>
  A \<^verbatim>\<open>dict\<close> keeps insertion order: it is an association list with distinct keys.
  \<^verbatim>\<open>d[k] = v\<close> is \<^const>\<open>AList.update\<close> (in place for a known key, at the end for a
  new one), \<^verbatim>\<open>del d[k]\<close> is \<^const>\<open>AList.delete\<close>, \<^verbatim>\<open>d.get(k)\<close> is
  \<^const>\<open>map_of\<close>.
\<close>

type_synonym ('k, 'v) dict = "('k \<times> 'v) list"

text \<open>\<^verbatim>\<open>d.update(other)\<close>: assigns the items of \<^verbatim>\<open>other\<close> in order.\<close>

definition dict_update :: "('k, 'v) dict \<Rightarrow> ('k, 'v) dict \<Rightarrow> ('k, 'v) dict" where
  "dict_update d other = fold (\<lambda>(k, v). AList.update k v) other d"

text \<open>\<^verbatim>\<open>d.get(k)\<close> on a dictionary of Python values: \<^verbatim>\<open>None\<close> for a missing key.\<close>

definition py_get :: "(string, pyval) dict \<Rightarrow> string \<Rightarrow> pyval" where
  "py_get d k = (case map_of d k of None \<Rightarrow> PNone | Some v \<Rightarrow> v)"

text \<open>\<^verbatim>\<open>struct.pack('!H', w)\<close> and \<^verbatim>\<open>struct.pack('!L', w)\<close>: big-endian.\<close>

definition be16 :: "16 word \<Rightarrow> byte list" where
  "be16 w = [ucast (drop_bit 8 w), ucast w]"

definition be32 :: "32 word \<Rightarrow> byte list" where
  "be32 w = [ucast (drop_bit 24 w), ucast (drop_bit 16 w), ucast (drop_bit 8 w), ucast w]"

text \<open>\<^verbatim>\<open>struct.unpack('!H', [hi, lo])\<close>.\<close>

definition unpack_be16 :: "byte \<Rightarrow> byte \<Rightarrow> 16 word" where
  "unpack_be16 hi lo = push_bit 8 (ucast hi) OR ucast lo"

text \<open>
  \<^verbatim>\<open>struct.pack('!Q', w)\<close>, and the little-endian fields that
  \<^verbatim>\<open>struct.unpack('<...', content)\<close> reads at a byte offset.
\<close>

definition be64 :: "64 word \<Rightarrow> byte list" where
  "be64 w = map (\<lambda>i. ucast (drop_bit (8 * i) w)) [7, 6, 5, 4, 3, 2, 1, 0]"

definition le16 :: "byte list \<Rightarrow> nat \<Rightarrow> 16 word" where
  "le16 c i = push_bit 8 (ucast (c ! (i + 1))) OR ucast (c ! i)"

definition le32 :: "byte list \<Rightarrow> nat \<Rightarrow> 32 word" where
  "le32 c i =
     push_bit 24 (ucast (c ! (i + 3))) OR push_bit 16 (ucast (c ! (i + 2))) OR
     push_bit 8 (ucast (c ! (i + 1))) OR ucast (c ! i)"

definition le64 :: "byte list \<Rightarrow> nat \<Rightarrow> 64 word" where
  "le64 c i = push_bit 32 (ucast (le32 c (i + 4))) OR ucast (le32 c i)"

text \<open>
  \<^verbatim>\<open>bytes.fromhex\<close>: two hexadecimal digits per byte, ASCII whitespace skipped
  between bytes; anything else raises \<^verbatim>\<open>ValueError\<close> (\<^const>\<open>None\<close> here).
\<close>

definition hex_digit :: "char \<Rightarrow> byte option" where
  "hex_digit c =
     (let n = (of_char c :: nat) in
      if 48 \<le> n \<and> n \<le> 57 then Some (of_nat (n - 48))
      else if 97 \<le> n \<and> n \<le> 102 then Some (of_nat (n - 87))
      else if 65 \<le> n \<and> n \<le> 70 then Some (of_nat (n - 55))
      else None)"

definition is_space :: "char \<Rightarrow> bool" where
  "is_space c = ((of_char c :: nat) \<in> {32, 9, 10, 11, 12, 13})"

fun fromhex :: "string \<Rightarrow> byte list option" where
  "fromhex [] = Some []"
| "fromhex [c] = (if is_space c then Some [] else None)"
| "fromhex (c # d # cs) =
     (if is_space c then fromhex (d # cs)
      else (case (hex_digit c, hex_digit d) of
              (Some h, Some l) \<Rightarrow>
                (case fromhex cs of None \<Rightarrow> None | Some bs \<Rightarrow> Some ((16 * h + l) # bs))
            | _ \<Rightarrow> None))"

section \<open>Devices, endpoints, clusters\<close>

text \<open>
  An attribute is a dictionary (\<^verbatim>\<open>'name'\<close>, \<^verbatim>\<open>'value'\<close>, ...). Of the external
  class \<^verbatim>\<open>Cluster\<close> the modelled code reads the dictionary \<^verbatim>\<open>attributes\<close> only.
\<close>

type_synonym attribute = "(string, pyval) dict"

record cluster =
  attributes :: "(int, attribute) dict"

text \<open>
  An endpoint is the dictionary built by \<^verbatim>\<open>Device.get_endpoint\<close>. The entries
  \<^verbatim>\<open>'device'\<close> and \<^verbatim>\<open>'in_clusters'\<close> are read with \<^verbatim>\<open>.get(...) is None\<close>:
  \<^const>\<open>None\<close> stands for a missing key as well as for the value \<^verbatim>\<open>None\<close>.
\<close>

record endpoint =
  clusters :: "(int, cluster) dict"
  profile :: int
  ep_device :: "int option"
  in_clusters :: "int list option"
  out_clusters :: "int list"

text \<open>
  Class \<^verbatim>\<open>Device\<close>: the dictionaries \<^verbatim>\<open>info\<close> and \<^verbatim>\<open>endpoints\<close> and the
  flag \<^verbatim>\<open>missing\<close>.
\<close>

record device =
  info :: "(string, pyval) dict"
  endpoints :: "(int, endpoint) dict"
  missing :: bool

text \<open>\<^verbatim>\<open>Device.__init__(info)\<close>.\<close>

definition Device :: "(string, pyval) dict \<Rightarrow> device" where
  "Device i = \<lparr>info = i, endpoints = [], missing = False\<rparr>"

text \<open>
  The properties \<^verbatim>\<open>addr\<close> (\<^verbatim>\<open>self.info['addr']\<close>, \<^verbatim>\<open>KeyError\<close> when the key is
  missing: \<^const>\<open>None\<close>), \<^verbatim>\<open>ieee\<close> and \<^verbatim>\<open>last_seen\<close> (both \<^verbatim>\<open>self.info.get\<close>).
\<close>

definition addr :: "device \<Rightarrow> pyval option" where
  "addr d = map_of (info d) ''addr''"

definition ieee :: "device \<Rightarrow> pyval" where
  "ieee d = py_get (info d) ''ieee''"

definition last_seen :: "device \<Rightarrow> pyval" where
  "last_seen d = py_get (info d) ''last_seen''"

text \<open>
  The truth value of a \<^verbatim>\<open>Device\<close> object: the class defines \<^verbatim>\<open>__len__\<close> as
  \<^verbatim>\<open>len(self.info)\<close> and no \<^verbatim>\<open>__bool__\<close>.
\<close>

definition device_truthy :: "device \<Rightarrow> bool" where
  "device_truthy d = (info d \<noteq> [])"

text \<open>\<^verbatim>\<open>Device.update(self, device)\<close>.\<close>

definition device_update :: "device \<Rightarrow> device \<Rightarrow> device" where
  "device_update self other =
     self\<lparr>info := dict_update (info self) (info other),
          endpoints := dict_update (endpoints self) (endpoints other)\<rparr>"

text \<open>
  \<^verbatim>\<open>Device.get_endpoint(endpoint_id)\<close>: creates the endpoint on first reference;
  returns it with the device as it is afterwards.
\<close>

definition new_endpoint :: endpoint where
  "new_endpoint = \<lparr>clusters = [], profile = 0, ep_device = Some 0,
                    in_clusters = Some [], out_clusters = []\<rparr>"

definition get_endpoint :: "device \<Rightarrow> int \<Rightarrow> endpoint \<times> device" where
  "get_endpoint d endpoint_id =
     (case map_of (endpoints d) endpoint_id of
        Some ep \<Rightarrow> (ep, d)
      | None \<Rightarrow> (new_endpoint,
                 d\<lparr>endpoints := AList.update endpoint_id new_endpoint (endpoints d)\<rparr>))"










section \<open>Timestamps\<close>

text \<open>
  A naive \<^verbatim>\<open>datetime\<close> and its rendering by \<^verbatim>\<open>strftime('%Y-%m-%d %H:%M:%S')\<close>:
  every field zero-padded, the year to four digits (as for the years from 1000 on).
\<close>

record datetime =
  year :: nat
  month :: nat
  day :: nat
  hour :: nat
  minute :: nat
  second :: nat

definition digit_char :: "nat \<Rightarrow> char" where
  "digit_char n = char_of (48 + n mod 10)"

definition pad2 :: "nat \<Rightarrow> string" where
  "pad2 n = [digit_char (n div 10), digit_char n]"

definition pad4 :: "nat \<Rightarrow> string" where
  "pad4 n = [digit_char (n div 1000), digit_char (n div 100), digit_char (n div 10), digit_char n]"

definition strftime :: "datetime \<Rightarrow> string" where
  "strftime t =
     pad4 (year t) @ ''-'' @ pad2 (month t) @ ''-'' @ pad2 (day t) @ '' '' @
     pad2 (hour t) @ '':'' @ pad2 (minute t) @ '':'' @ pad2 (second t)"



section \<open>State of the driver, exceptions, environment\<close>

text \<open>
  The exceptions the modelled code can raise. A call returns a value, raises, or (a
  polling loop whose environment script has ended) is still waiting; in each case the
  state reached is kept, since a Python exception does not undo earlier assignments.
\<close>

datatype exn =
  KeyError | TypeError | ValueError | AssertionError | StructError | NotConnected
  | ZeroDivisionError

datatype 'a outcome = Return 'a | Raise exn | Hang

definition then_do ::
  "'a outcome \<times> 's \<Rightarrow> ('a \<Rightarrow> 's \<Rightarrow> 'b outcome \<times> 's) \<Rightarrow> 'b outcome \<times> 's" where
  "then_do m f =
     (case m of
        (Return a, s) \<Rightarrow> f a s
      | (Raise e, s) \<Rightarrow> (Raise e, s)
      | (Hang, s) \<Rightarrow> (Hang, s))"

text \<open>
  The signals handed to \<^verbatim>\<open>dispatch_signal\<close> by the device directory, with the
  payload they carry. \<^verbatim>\<open>dispatch_signal\<close> catches every exception of a subscriber.
\<close>

datatype signal =
  DeviceUpdated device
  | DeviceRenamed pyval pyval
  | DeviceAdded device
  | DeviceRemoved pyval device

text \<open>
  The fields of the OTA image header that \<^verbatim>\<open>_ota_send_image_data\<close> reads, and the
  dictionary \<^verbatim>\<open>self._ota\<close> (\<^verbatim>\<open>image.header\<close> and \<^verbatim>\<open>image.data\<close> flattened;
  \<^verbatim>\<open>starttime\<close> is \<^verbatim>\<open>False\<close> until a transfer starts: \<^const>\<open>None\<close>).
\<close>

record image_header =
  image_version :: "32 word"
  image_type :: "16 word"
  manufacturer_code :: "16 word"

record ota_session =
  ota_header :: "image_header option"
  ota_data :: "byte list option"
  ota_active :: bool
  ota_starttime :: "real option"
  ota_transfered :: nat
  ota_addr :: "16 word option"

text \<open>
  The environment of a polling caller. One tick is one \<^verbatim>\<open>sleep(0.01)\<close> followed by
  the next reading of \<^verbatim>\<open>time()\<close>: the statuses and responses that the event-loop
  thread stores meanwhile, and the time read afterwards.
\<close>

record 'r tick =
  tick_time :: real
  tick_statuses :: "(16 word \<times> int) list"
  tick_responses :: "(16 word \<times> 'r) list"

text \<open>
  Class \<^verbatim>\<open>ZiGate\<close>: \<^verbatim>\<open>_devices\<close>, \<^verbatim>\<open>_last_response\<close>, \<^verbatim>\<open>_last_status\<close>,
  \<^verbatim>\<open>_no_response_count\<close> and \<^verbatim>\<open>_ota\<close>; the signals dispatched so far; of the
  transport its \<^verbatim>\<open>is_connected()\<close> and what was handed to its \<^verbatim>\<open>send\<close>; the last
  reading of the clock and the ticks still to come. The type \<open>'r\<close> is that of the
  decoded response objects of the external module \<^verbatim>\<open>responses\<close>.
\<close>

record 'r zigate =
  devices :: "(pyval, device) dict"
  last_response :: "(16 word, 'r) dict"
  last_status :: "(16 word, int option) dict"
  no_response_count :: int
  ota :: ota_session
  signals :: "signal list"
  connected :: bool
  sent :: "byte list list"
  clock :: real
  script :: "'r tick list"

definition dispatch_signal :: "signal \<Rightarrow> 'r zigate \<Rightarrow> 'r zigate" where
  "dispatch_signal sig st = st\<lparr>signals := signals st @ [sig]\<rparr>"

section \<open>Command dispatcher\<close>

text \<open>\<^verbatim>\<open>ZiGate.send_to_transport\<close>.\<close>

definition send_to_transport :: "byte list \<Rightarrow> 'r zigate \<Rightarrow> unit outcome \<times> 'r zigate" where
  "send_to_transport data st =
     (if \<not> connected st then (Raise NotConnected, st)
      else (Return (), st\<lparr>sent := sent st @ [data]\<rparr>))"

text \<open>
  What the event-loop thread does during one tick: \<^verbatim>\<open>interpret_response\<close> stores a
  status under its command id, \<^verbatim>\<open>decode_data\<close> stores a response under its type.
\<close>

definition apply_tick :: "'r tick \<Rightarrow> 'r zigate \<Rightarrow> 'r zigate" where
  "apply_tick t st =
     st\<lparr>last_status := fold (\<lambda>(c, s). AList.update c (Some s)) (tick_statuses t) (last_status st),
        last_response := fold (\<lambda>(m, r). AList.update m r) (tick_responses t) (last_response st),
        clock := tick_time t\<rparr>"

text \<open>\<^verbatim>\<open>self._last_status.get(cmd)\<close>: \<^verbatim>\<open>None\<close> for a missing key and for a cleared one.\<close>

definition status_get :: "'r zigate \<Rightarrow> 16 word \<Rightarrow> int option" where
  "status_get st cmd = (case map_of (last_status st) cmd of Some (Some s) \<Rightarrow> Some s | _ \<Rightarrow> None)"

text \<open>
  \<^verbatim>\<open>ZiGate._wait_status(cmd)\<close>: \<^verbatim>\<open>t1\<close> is the time at entry; the loop runs while no
  status is stored for \<^verbatim>\<open>cmd\<close>.
\<close>

function wait_status_loop ::
  "16 word \<Rightarrow> real \<Rightarrow> 'r zigate \<Rightarrow> int option outcome \<times> 'r zigate" where
  "wait_status_loop cmd t1 st =
     (if status_get st cmd = None then
        (case script st of
           [] \<Rightarrow> (Hang, st)
         | t # ts \<Rightarrow>
             (let st' = apply_tick t (st\<lparr>script := ts\<rparr>); t2 = clock st' in
              if t2 - t1 > 3
              then (Return None, st'\<lparr>no_response_count := no_response_count st' + 1\<rparr>)
              else wait_status_loop cmd t1 st'))
      else (Return (status_get st cmd), st\<lparr>no_response_count := 0\<rparr>))"
  by pat_completeness auto
termination
  by (relation "measure (\<lambda>(cmd, t1, st). length (script st))") (auto simp: apply_tick_def)

definition wait_status :: "16 word \<Rightarrow> 'r zigate \<Rightarrow> int option outcome \<times> 'r zigate" where
  "wait_status cmd st = wait_status_loop cmd (clock st) st"

text \<open>\<^verbatim>\<open>ZiGate._clear_response\<close> and \<^verbatim>\<open>ZiGate._wait_response\<close>.\<close>

definition clear_response :: "16 word \<Rightarrow> 'r zigate \<Rightarrow> 'r zigate" where
  "clear_response msg_type st = st\<lparr>last_response := AList.delete msg_type (last_response st)\<rparr>"

function wait_response_loop ::
  "16 word \<Rightarrow> real \<Rightarrow> 'r zigate \<Rightarrow> 'r option outcome \<times> 'r zigate" where
  "wait_response_loop msg_type t1 st =
     (if map_of (last_response st) msg_type = None then
        (case script st of
           [] \<Rightarrow> (Hang, st)
         | t # ts \<Rightarrow>
             (let st' = apply_tick t (st\<lparr>script := ts\<rparr>); t2 = clock st' in
              if t2 - t1 > 3 then (Return None, st')
              else wait_response_loop msg_type t1 st'))
      else (Return (map_of (last_response st) msg_type), st))"
  by pat_completeness auto
termination
  by (relation "measure (\<lambda>(msg_type, t1, st). length (script st))") (auto simp: apply_tick_def)

definition wait_response :: "16 word \<Rightarrow> 'r zigate \<Rightarrow> 'r option outcome \<times> 'r zigate" where
  "wait_response msg_type st = wait_response_loop msg_type (clock st) st"

text \<open>
  The \<^verbatim>\<open>data\<close> argument of \<^verbatim>\<open>send_data\<close>: a \<^verbatim>\<open>str\<close> goes through
  \<^verbatim>\<open>bytes.fromhex\<close>, \<^verbatim>\<open>bytes\<close> are taken as they are, and
  \<^verbatim>\<open>assert type(byte_data) == bytes\<close> rejects the rest.
\<close>

definition byte_data_of :: "pyval \<Rightarrow> exn + byte list" where
  "byte_data_of data =
     (case data of
        PStr s \<Rightarrow> (case fromhex s of None \<Rightarrow> Inl ValueError | Some bs \<Rightarrow> Inr bs)
      | PBytes bs \<Rightarrow> Inr bs
      | _ \<Rightarrow> Inl AssertionError)"

text \<open>
  The message built by \<^verbatim>\<open>send_data\<close>:
  \<^verbatim>\<open>struct.pack('!HHB%ds' % length, cmd, length, checksum, byte_data)\<close>.
\<close>

definition build_msg :: "16 word \<Rightarrow> byte list \<Rightarrow> byte list" where
  "build_msg cmd byte_data =
     (let byte_cmd = be16 cmd;
          byte_length = be16 (of_nat (length byte_data));
          chk = checksum [BytesArg byte_cmd, BytesArg byte_length, BytesArg byte_data]
      in byte_cmd @ byte_length @ [of_int chk] @ byte_data)"

text \<open>
  What \<^verbatim>\<open>send_data\<close> returns: the status (or \<^verbatim>\<open>None\<close>), the awaited response (or
  \<^verbatim>\<open>None\<close>), or \<^verbatim>\<open>False\<close> when no status is awaited.
\<close>

datatype 'r send_result = SendStatus "int option" | SendResponse "'r option" | SendFalse

text \<open>
  \<^verbatim>\<open>ZiGate.send_data(cmd, data, wait_response, wait_status)\<close> for an integer
  \<^verbatim>\<open>cmd\<close>. \<^verbatim>\<open>wait_response\<close> is \<^verbatim>\<open>None\<close> or a message type, which counts as
  true when it is not 0. A payload of more than 65535 bytes makes
  \<^verbatim>\<open>struct.pack('!H', length)\<close> raise.
\<close>

definition send_data ::
  "16 word \<Rightarrow> pyval \<Rightarrow> 16 word option \<Rightarrow> bool \<Rightarrow> 'r zigate \<Rightarrow> 'r send_result outcome \<times> 'r zigate" where
  "send_data cmd data wait_resp wait_stat st =
     (let st1 = st\<lparr>last_status := AList.update cmd None (last_status st)\<rparr>;
          waiting = (case wait_resp of None \<Rightarrow> False | Some m \<Rightarrow> m \<noteq> 0);
          st2 = (if waiting then clear_response (the wait_resp) st1 else st1)
      in case byte_data_of data of
           Inl e \<Rightarrow> (Raise e, st2)
         | Inr byte_data \<Rightarrow>
             if 65535 < length byte_data then (Raise StructError, st2)
             else
               then_do (send_to_transport (wrap_frame (zigate_encode (build_msg cmd byte_data))) st2)
                 (\<lambda>_ st3.
                    if wait_stat then
                      then_do (wait_status cmd st3)
                        (\<lambda>status st4.
                           if waiting \<and> status \<noteq> None then
                             then_do (wait_response (the wait_resp) st4)
                               (\<lambda>r st5. (Return (SendResponse r), st5))
                           else (Return (SendStatus status), st4))
                    else (Return SendFalse, st3)))"

text \<open>
  \<^verbatim>\<open>node_descriptor_request\<close>, \<^verbatim>\<open>active_endpoint_request\<close> and
  \<^verbatim>\<open>ZiGate.refresh_device\<close>, which calls the two in turn.
\<close>

definition node_descriptor_request ::
  "pyval \<Rightarrow> 'r zigate \<Rightarrow> 'r send_result outcome \<times> 'r zigate" where
  "node_descriptor_request a st = send_data 0x0042 a None True st"

definition active_endpoint_request ::
  "pyval \<Rightarrow> 'r zigate \<Rightarrow> 'r send_result outcome \<times> 'r zigate" where
  "active_endpoint_request a st = send_data 0x0045 a None True st"

definition refresh_device :: "pyval \<Rightarrow> 'r zigate \<Rightarrow> unit outcome \<times> 'r zigate" where
  "refresh_device a st =
     then_do (node_descriptor_request a st)
       (\<lambda>_ st1. then_do (active_endpoint_request a st1) (\<lambda>_ st2. (Return (), st2)))"

section \<open>Device directory\<close>

text \<open>
  \<^verbatim>\<open>ZiGate.get_device_from_ieee\<close>: nothing for a false \<^verbatim>\<open>ieee\<close>, else the first
  device, in the order of the dictionary, with that IEEE. The model returns the entry,
  that is the device with the key it is stored under: the caller changes the object in
  place, which in a model by value is an assignment to that key.
\<close>

definition get_device_from_ieee :: "'r zigate \<Rightarrow> pyval \<Rightarrow> (pyval \<times> device) option" where
  "get_device_from_ieee st i =
     (if truthy i then find (\<lambda>(k, d). ieee d = i) (devices st) else None)"

text \<open>
  \<^verbatim>\<open>ZiGate._set_device(device)\<close>. Reading \<^verbatim>\<open>device.addr\<close> or \<^verbatim>\<open>d.addr\<close> raises
  \<^verbatim>\<open>KeyError\<close> when \<^verbatim>\<open>info\<close> has no \<^verbatim>\<open>'addr'\<close>, and so does
  \<^verbatim>\<open>del self._devices[old_addr]\<close> for a missing key. \<^verbatim>\<open>refresh_device\<close> is called
  in the \<^verbatim>\<open>else\<close> branch only.
\<close>

definition set_device :: "device \<Rightarrow> 'r zigate \<Rightarrow> unit outcome \<times> 'r zigate" where
  "set_device dev st =
     (case addr dev of
        None \<Rightarrow> (Raise KeyError, st)
      | Some a \<Rightarrow>
          (case map_of (devices st) a of
             Some existing \<Rightarrow>
               (let d' = device_update existing dev;
                    st1 = st\<lparr>devices := AList.update a d' (devices st)\<rparr>
                in (Return (), dispatch_signal (DeviceUpdated d') st1))
           | None \<Rightarrow>
               (case (case get_device_from_ieee st (ieee dev) of
                        Some (k, d) \<Rightarrow> if device_truthy d then Some (k, d) else None
                      | None \<Rightarrow> None) of
                  Some (k, d) \<Rightarrow>
                    (case addr d of
                       None \<Rightarrow> (Raise KeyError, st)
                     | Some old_addr \<Rightarrow>
                         (let new_addr = a;
                              d' = device_update d dev;
                              st1 = st\<lparr>devices := AList.update k d' (devices st)\<rparr>;
                              st2 = st1\<lparr>devices := AList.update new_addr d' (devices st1)\<rparr>
                          in if map_of (devices st2) old_addr = None then (Raise KeyError, st2)
                             else
                               (let st3 = st2\<lparr>devices := AList.delete old_addr (devices st2)\<rparr>;
                                    st4 = dispatch_signal (DeviceRenamed old_addr new_addr) st3
                                in refresh_device a st4)))
                | None \<Rightarrow>
                    (let st1 = st\<lparr>devices := AList.update a dev (devices st)\<rparr>;
                         st2 = dispatch_signal (DeviceAdded dev) st1
                     in refresh_device a st2))))"

text \<open>\<^verbatim>\<open>ZiGate._remove_device(addr)\<close>: \<^verbatim>\<open>pop\<close> raises for an unknown address.\<close>

definition remove_device :: "pyval \<Rightarrow> 'r zigate \<Rightarrow> unit outcome \<times> 'r zigate" where
  "remove_device a st =
     (case map_of (devices st) a of
        None \<Rightarrow> (Raise KeyError, st)
      | Some d \<Rightarrow>
          (Return (),
           dispatch_signal (DeviceRemoved a d) (st\<lparr>devices := AList.delete a (devices st)\<rparr>)))"

text \<open>
  \<^verbatim>\<open>ZiGate._tag_missing(addr)\<close>. The argument \<^verbatim>\<open>last_24h\<close> is the value of
  \<^verbatim>\<open>datetime.datetime.now() - datetime.timedelta(hours=24)\<close>, which the code renders
  with \<^verbatim>\<open>strftime\<close> and compares, as a string, with \<^verbatim>\<open>last_seen\<close>. Comparing a
  true \<^verbatim>\<open>last_seen\<close> that is no string with a string raises \<^verbatim>\<open>TypeError\<close>.
\<close>

definition tag_missing :: "datetime \<Rightarrow> pyval \<Rightarrow> 'r zigate \<Rightarrow> unit outcome \<times> 'r zigate" where
  "tag_missing last_24h a st =
     (let last_24h_str = strftime last_24h in
      case map_of (devices st) a of
        None \<Rightarrow> (Return (), st)
      | Some d \<Rightarrow>
          if truthy (last_seen d) then
            (case last_seen d of
               PStr s \<Rightarrow>
                 if s < last_24h_str then
                   (let d' = d\<lparr>missing := True\<rparr>;
                        st1 = st\<lparr>devices := AList.update a d' (devices st)\<rparr>
                    in (Return (), dispatch_signal (DeviceUpdated d') st1))
                 else (Return (), st)
             | _ \<Rightarrow> (Raise TypeError, st))
          else (Return (), st))"

section \<open>OTA transfer\<close>

text \<open>
  The fields of an image block request (message \<^verbatim>\<open>0x8501\<close>) that
  \<^verbatim>\<open>_ota_send_image_data\<close> reads, with the widths it packs them in. \<^verbatim>\<open>rq_addr\<close> is
  the number that \<^verbatim>\<open>self.__addr(request['addr'])\<close> yields.
\<close>

record block_request =
  rq_address_mode :: byte
  rq_addr :: "16 word"
  rq_endpoint :: byte
  rq_sequence :: byte
  rq_file_offset :: "32 word"
  rq_image_version :: "32 word"
  rq_image_type :: "16 word"
  rq_manufacturer_code :: "16 word"
  rq_max_data_size :: byte

text \<open>\<^verbatim>\<open>ZiGate._ota_reset_local_variables\<close>.\<close>

definition ota_reset_value :: ota_session where
  "ota_reset_value =
     \<lparr>ota_header = None, ota_data = None, ota_active = False, ota_starttime = None,
      ota_transfered = 0, ota_addr = None\<rparr>"

definition ota_reset_local_variables :: "'r zigate \<Rightarrow> 'r zigate" where
  "ota_reset_local_variables st = st\<lparr>ota := ota_reset_value\<rparr>"

text \<open>
  \<^verbatim>\<open>ZiGate.get_ota_status\<close> only logs, but can raise on the way: \<^verbatim>\<open>len(None)\<close>,
  a \<^verbatim>\<open>datetime\<close> minus \<^verbatim>\<open>False\<close>, and \<^verbatim>\<open>transfered / image_size\<close> for an empty
  image (the division by \<^verbatim>\<open>transfered\<close> is guarded by \<^verbatim>\<open>except ZeroDivisionError\<close>).
\<close>

definition get_ota_status :: "'r zigate \<Rightarrow> unit outcome" where
  "get_ota_status st =
     (if ota_active (ota st) then
        (case ota_data (ota st) of
           None \<Rightarrow> Raise TypeError
         | Some img \<Rightarrow>
             (case ota_starttime (ota st) of
                None \<Rightarrow> Raise TypeError
              | Some t0 \<Rightarrow> if length img = 0 then Raise ZeroDivisionError else Return ()))
      else Return ())"

text \<open>
  The payload of the block response (command \<^verbatim>\<open>0x0502\<close>):
  \<^verbatim>\<open>struct.pack('!BHBBBBLLHHB{}B', ...)\<close> with source endpoint 1 and status 0.
\<close>

definition block_response_payload ::
  "block_request \<Rightarrow> image_header \<Rightarrow> byte list \<Rightarrow> byte list" where
  "block_response_payload request h ota_data_to_send =
     [rq_address_mode request] @ be16 (rq_addr request) @
     [0x01, rq_endpoint request, rq_sequence request, 0x00] @
     be32 (rq_file_offset request) @ be32 (image_version h) @ be16 (image_type h) @
     be16 (manufacturer_code h) @ [of_nat (length ota_data_to_send)] @ ota_data_to_send"

text \<open>
  \<^verbatim>\<open>ZiGate._ota_send_image_data(request)\<close>. The slice
  \<^verbatim>\<open>data[file_offset:end_position]\<close> is \<^const>\<open>take\<close> after \<^const>\<open>drop\<close>.
\<close>

definition ota_send_image_data ::
  "block_request \<Rightarrow> 'r zigate \<Rightarrow> unit outcome \<times> 'r zigate" where
  "ota_send_image_data request st =
     (case (ota_header (ota st), ota_data (ota st)) of
        (Some h, Some img) \<Rightarrow>
          if rq_image_version request \<noteq> image_version h
             \<or> rq_image_type request \<noteq> image_type h
             \<or> rq_manufacturer_code request \<noteq> manufacturer_code h
          then (Return (), st)
          else
            (let o1 = (if ota_starttime (ota st) = None \<and> \<not> ota_active (ota st)
                       then (ota st)\<lparr>ota_starttime := Some (clock st), ota_active := True,
                                      ota_transfered := 0, ota_addr := Some (rq_addr request)\<rparr>
                       else ota st);
                 file_offset = unat (rq_file_offset request);
                 o2 = o1\<lparr>ota_transfered := file_offset\<rparr>;
                 end_position = file_offset + unat (rq_max_data_size request);
                 ota_data_to_send = take (end_position - file_offset) (drop file_offset img);
                 st1 = st\<lparr>ota := o2\<rparr>
             in case get_ota_status st1 of
                  Return _ \<Rightarrow>
                    then_do
                      (send_data 0x0502
                         (PBytes (block_response_payload request h ota_data_to_send))
                         None False st1)
                      (\<lambda>_ st2. (Return (), st2))
                | Raise e \<Rightarrow> (Raise e, st1)
                | Hang \<Rightarrow> (Hang, st1))
      | _ \<Rightarrow> (Return (), st))"

text \<open>
  \<^verbatim>\<open>ZiGate.ota_load_image\<close>, with the content of the file in place of its path
  (\<^const>\<open>None\<close> when reading raises \<^verbatim>\<open>OSError\<close>). The header is the 69-byte
  little-endian prefix \<^verbatim>\<open>'<LHHHHHLH32BLBQHH'\<close>; it is sent big-endian behind the
  address mode \<^verbatim>\<open>0x02\<close> and the address \<^verbatim>\<open>0x0000\<close>, the file id as a signed
  \<^verbatim>\<open>'l'\<close>, the 32 bytes of the header string with each 0 turned into a space.
\<close>

definition image_header_payload :: "byte list \<Rightarrow> byte list" where
  "image_header_payload content =
     [0x02] @ be16 0x0000 @ be32 (le32 content 0) @ be16 (le16 content 4) @
     be16 (le16 content 6) @ be16 (le16 content 8) @ be16 (le16 content 10) @
     be16 (le16 content 12) @ be32 (le32 content 14) @ be16 (le16 content 18) @
     map (\<lambda>b. if b = 0x00 then 0x20 else b) (take 32 (drop 20 content)) @
     be32 (le32 content 52) @ [content ! 56] @ be64 (le64 content 57) @
     be16 (le16 content 65) @ be16 (le16 content 67)"

definition ota_load_image ::
  "byte list option \<Rightarrow> 'r zigate \<Rightarrow> bool option outcome \<times> 'r zigate" where
  "ota_load_image file st =
     (if ota_active (ota st) then
        (case get_ota_status st of
           Return _ \<Rightarrow> (Return None, st)
         | Raise e \<Rightarrow> (Raise e, st)
         | Hang \<Rightarrow> (Hang, st))
      else
        (case file of
           None \<Rightarrow> (Return (Some False), st)
         | Some ota_file_content \<Rightarrow>
             if length ota_file_content < 69 then (Return (Some False), st)
             else
               (let header = \<lparr>image_version = le32 ota_file_content 14,
                              image_type = le16 ota_file_content 12,
                              manufacturer_code = le16 ota_file_content 10\<rparr>
                in if unat (le32 ota_file_content 52) \<noteq> length ota_file_content
                   then (Return (Some False), st)
                   else if 2 ^ 31 \<le> unat (le32 ota_file_content 0) then (Raise StructError, st)
                   else
                     then_do
                       (send_data 0x0500 (PBytes (image_header_payload ota_file_content))
                          None True st)
                       (\<lambda>response st1.
                          if response = SendStatus (Some 0) then
                            (Return None,
                             st1\<lparr>ota := ota_reset_value\<lparr>ota_header := Some header,
                                                         ota_data := Some ota_file_content\<rparr>\<rparr>)
                          else (Return None, st1)))))"

text \<open>
  \<^verbatim>\<open>ZiGate._ota_handle_upgrade_end_request(request)\<close>, of which the model keeps the
  status byte. For status 0 the log line computes \<^verbatim>\<open>datetime.now() - starttime\<close>.
\<close>

definition ota_handle_upgrade_end_request :: "byte \<Rightarrow> 'r zigate \<Rightarrow> unit outcome \<times> 'r zigate" where
  "ota_handle_upgrade_end_request status st =
     (if ota_active (ota st) then
        (if status = 0x00 \<and> ota_starttime (ota st) = None then (Raise TypeError, st)
         else (Return (), ota_reset_local_variables st))
      else (Return (), st))"

section \<open>Inbound frames\<close>

text \<open>
  \<^verbatim>\<open>struct.unpack('!HHB%dsB' % (len(decoded) - 6), decoded)\<close>: fails for fewer than
  six bytes, and otherwise splits off message type, length, checksum, value and the
  trailing RSSI byte.
\<close>

record frame =
  msg_type :: "16 word"
  f_length :: "16 word"
  f_checksum :: byte
  f_value :: "byte list"
  f_rssi :: byte

definition unpack_frame :: "byte list \<Rightarrow> frame option" where
  "unpack_frame decoded =
     (if length decoded < 6 then None
      else Some \<lparr>msg_type = unpack_be16 (decoded ! 0) (decoded ! 1),
                 f_length = unpack_be16 (decoded ! 2) (decoded ! 3),
                 f_checksum = decoded ! 4,
                 f_value = take (length decoded - 6) (drop 5 decoded),
                 f_rssi = decoded ! (length decoded - 1)\<rparr>)"

text \<open>What \<^verbatim>\<open>decode_data\<close> did with a packet; each rejection is one of its log lines.\<close>

datatype decode_result =
  FailedToDecode | BadLength | BadChecksum | ErrorDecodingResponse | Dispatched

text \<open>
  \<^verbatim>\<open>ZiGate.decode_data(packet)\<close>. The constructor looked up in the external table
  \<^verbatim>\<open>RESPONSES\<close> is the parameter \<open>mk_response\<close> (\<^const>\<open>None\<close> when it raises), and
  \<open>receivers\<close> is what the subscribers of \<^verbatim>\<open>ZIGATE_RESPONSE_RECEIVED\<close>, among them
  \<^verbatim>\<open>interpret_response\<close>, do to the state. The function raises in no case: both
  \<^verbatim>\<open>try\<close> blocks catch \<^verbatim>\<open>Exception\<close>, and so does \<^verbatim>\<open>dispatch_signal\<close>.
\<close>

definition decode_data ::
  "(16 word \<Rightarrow> byte list \<Rightarrow> byte \<Rightarrow> 'r option) \<Rightarrow> ('r \<Rightarrow> 'r zigate \<Rightarrow> 'r zigate) \<Rightarrow>
   byte list \<Rightarrow> 'r zigate \<Rightarrow> decode_result \<times> 'r zigate" where
  "decode_data mk_response receivers packet st =
     (let decoded = zigate_decode (butlast (drop 1 packet)) in
      case unpack_frame decoded of
        None \<Rightarrow> (FailedToDecode, st)
      | Some f \<Rightarrow>
          if unat (f_length f) \<noteq> length (f_value f) + 1 then (BadLength, st)
          else
            (let computed_checksum =
                   checksum [BytesArg (take 4 decoded), IntArg (uint (f_rssi f)),
                             BytesArg (f_value f)]
             in if uint (f_checksum f) \<noteq> computed_checksum then (BadChecksum, st)
                else
                  (case mk_response (msg_type f) (f_value f) (f_rssi f) of
                     None \<Rightarrow> (ErrorDecodingResponse, st)
                   | Some response \<Rightarrow>
                       (let st1 = st\<lparr>last_response :=
                                       AList.update (msg_type f) response (last_response st)\<rparr>
                        in (Dispatched, receivers response st1)))))"

section \<open>Invariants and example values\<close>

text \<open>
  The contribution of one argument to the checksum: what \<^const>\<open>checksum_loop\<close> makes
  of it from 0.
\<close>

definition arg_fold :: "checksum_arg \<Rightarrow> int" where
  "arg_fold a = checksum_loop 0 [a]"

text \<open>
  What holds of \<^verbatim>\<open>self._ota\<close> in every state the OTA operations reach: an active
  session has its start time (both are assigned together, and reset together), and a
  stored image is not empty (\<^verbatim>\<open>ota_load_image\<close> refuses a file of fewer than 69
  bytes).
\<close>

definition ota_consistent :: "ota_session \<Rightarrow> bool" where
  "ota_consistent s =
     ((ota_active s \<longrightarrow> ota_starttime s \<noteq> None) \<and>
      (case ota_data s of None \<Rightarrow> True | Some img \<Rightarrow> img \<noteq> []))"

text \<open>A door sensor with one endpoint and its model name, and a state that tracks it.\<close>

definition example_sensor :: device where
  "example_sensor =
     \<lparr>info = [(''addr'', PStr ''1a2b''), (''ieee'', PStr ''00158d0001a2b3c4'')],
      endpoints =
        [(1, \<lparr>clusters =
                 [(0, \<lparr>attributes =
                         [(5, [(''attribute'', PInt 5), (''name'', PStr ''type''),
                               (''value'', PStr ''lumi.sensor_magnet'')])]\<rparr>)],
               profile = 260, ep_device = Some 24321, in_clusters = Some [0, 3],
               out_clusters = []\<rparr>)],
      missing = False\<rparr>"

definition example_state :: "'r zigate" where
  "example_state =
     \<lparr>devices = [(PStr ''1a2b'', example_sensor)], last_response = [], last_status = [],
      no_response_count = 0, ota = ota_reset_value, signals = [], connected = True,
      sent = [], clock = 0, script = []\<rparr>"

text \<open>
  An OTA session in the middle of a transfer: image version 5, image type 1,
  manufacturer code 9, an image of 200 bytes.
\<close>

definition example_header :: image_header where
  "example_header = \<lparr>image_version = 5, image_type = 1, manufacturer_code = 9\<rparr>"

definition example_image :: "byte list" where
  "example_image = map of_nat [0..<200]"

definition example_transfer :: ota_session where
  "example_transfer =
     \<lparr>ota_header = Some example_header, ota_data = Some example_image, ota_active = True,
      ota_starttime = Some 0, ota_transfered = 50, ota_addr = Some 0x1a2b\<rparr>"

text \<open>The part of the state that sending and waiting leave alone.\<close>

definition same_directory :: "'r zigate \<Rightarrow> 'r zigate \<Rightarrow> bool" where
  "same_directory s t =
     (devices s = devices t \<and> signals s = signals t \<and> ota s = ota t \<and>
      connected s = connected t)"

text \<open>
  The block request of the specification's example: offset 100, at most 50 bytes, for
  the image of \<^const>\<open>example_header\<close>.
\<close>

definition example_request :: block_request where
  "example_request =
     \<lparr>rq_address_mode = 0x02, rq_addr = 0x1a2b, rq_endpoint = 0x01, rq_sequence = 0x2a,
      rq_file_offset = 100, rq_image_version = 5, rq_image_type = 1,
      rq_manufacturer_code = 9, rq_max_data_size = 50\<rparr>"


text \<open>
  The device directory as the code keeps it: \<^verbatim>\<open>_devices\<close> maps each address to
  the device whose \<^verbatim>\<open>info['addr']\<close> it is (every assignment to \<^verbatim>\<open>_devices\<close>
  uses \<^verbatim>\<open>device.addr\<close> as the key), and a dictionary has each key once.
\<close>

definition directory_wf :: "(pyval, device) dict \<Rightarrow> bool" where
  "directory_wf ds = (distinct (map fst ds) \<and> (\<forall>(k, d)\<in>set ds. addr d = Some k))"

text \<open>No two tracked devices share an IEEE that counts as true.\<close>

definition unique_ieee :: "(pyval, device) dict \<Rightarrow> bool" where
  "unique_ieee ds =
     (\<forall>(k1, d1)\<in>set ds. \<forall>(k2, d2)\<in>set ds.
        truthy (ieee d1) \<and> ieee d1 = ieee d2 \<longrightarrow> k1 = k2)"

text \<open>
  Devices as \<^verbatim>\<open>interpret_response\<close> builds them from a device announce: a lamp and a
  plug, an announce with the IEEE of the plug under the address of the lamp, and one with
  the IEEE of the sensor under a new address.
\<close>

definition example_lamp :: device where
  "example_lamp = Device [(''addr'', PStr ''1111''), (''ieee'', PStr ''00158d00000000aa'')]"

definition example_plug :: device where
  "example_plug = Device [(''addr'', PStr ''2222''), (''ieee'', PStr ''00158d00000000bb'')]"

definition example_plug_announce :: device where
  "example_plug_announce =
     Device [(''addr'', PStr ''1111''), (''ieee'', PStr ''00158d00000000bb'')]"

definition example_sensor_moved :: device where
  "example_sensor_moved =
     Device [(''addr'', PStr ''9f01''), (''ieee'', PStr ''00158d0001a2b3c4''), (''rssi'', PInt 80)]"

text \<open>
  An empty directory whose environment lets four status waits time out, and the state
  after the announces of the lamp and of the plug.
\<close>

definition example_empty_directory :: "unit zigate" where
  "example_empty_directory =
     example_state
       \<lparr>devices := [],
        script := map (\<lambda>t. \<lparr>tick_time = t, tick_statuses = [], tick_responses = []\<rparr>)
                    [4, 8, 12, 16]\<rparr>"

definition example_two_devices :: "unit zigate" where
  "example_two_devices =
     snd (set_device example_plug (snd (set_device example_lamp example_empty_directory)))"




section \<open>Properties of the frame codec\<close>

lemma byte_lt16_cases:
  assumes "(b::byte) < 0x10"
  shows "b \<in> {0, 1, 2, 3, 4, 5, 6, 7, 8, 9, 10, 11, 12, 13, 14, 15}"
proof -
  from assms have "unat b < 16" by (simp add: word_less_nat_alt)
  then have "unat b \<in> {0, 1, 2, 3, 4, 5, 6, 7, 8, 9, 10, 11, 12, 13, 14, 15}"
    by simp arith
  then have "(of_nat (unat b) :: byte) \<in> of_nat ` {0, 1, 2, 3, 4, 5, 6, 7, 8, 9, 10, 11, 12, 13, 14, 15}"
    by (rule imageI)
  then show ?thesis by simp
qed

lemma low_xor_ge: "(b::byte) < 0x10 \<Longrightarrow> 0x10 \<le> 0x10 XOR b"
  by (drule byte_lt16_cases) auto

lemma low_xor_inv: "((0x10::byte) XOR b) XOR 0x10 = b"
  by (simp add: ac_simps)

lemma high_ne_escape: "\<not> (b::byte) < 0x10 \<Longrightarrow> b \<noteq> 0x02"
  by auto

lemma zigate_encode_loop_acc:
  "zigate_encode_loop encoded data = encoded @ zigate_encode_loop [] data"
proof (induction data arbitrary: encoded)
  case Nil
  show ?case by simp
next
  case (Cons b bs)
  have l: "zigate_encode_loop (encoded @ [0x02, 0x10 XOR b]) bs
      = encoded @ zigate_encode_loop [0x02, 0x10 XOR b] bs"
    using Cons.IH [of "encoded @ [0x02, 0x10 XOR b]"] Cons.IH [of "[0x02, 0x10 XOR b]"]
    by simp
  have h: "zigate_encode_loop (encoded @ [b]) bs = encoded @ zigate_encode_loop [b] bs"
    using Cons.IH [of "encoded @ [b]"] Cons.IH [of "[b]"] by simp
  show ?case using l h by simp
qed

lemma zigate_encode_Cons:
  "zigate_encode (b # bs) =
     (if b < 0x10 then 0x02 # (0x10 XOR b) # zigate_encode bs else b # zigate_encode bs)"
  unfolding zigate_encode_def
  using zigate_encode_loop_acc [of "[0x02, 0x10 XOR b]" bs] zigate_encode_loop_acc [of "[b]" bs]
  by simp

lemma zigate_encode_Nil: "zigate_encode [] = []"
  by (simp add: zigate_encode_def)

lemma zigate_decode_loop_encode:
  "zigate_decode_loop False decoded (zigate_encode x) = decoded @ x"
proof (induction x arbitrary: decoded)
  case Nil
  show ?case by (simp add: zigate_encode_Nil)
next
  case (Cons b bs)
  show ?case
  proof (cases "b < 0x10")
    case True
    then show ?thesis
      using Cons.IH [of "decoded @ [b]"] by (simp add: zigate_encode_Cons low_xor_inv)
  next
    case False
    then show ?thesis
      using Cons.IH [of "decoded @ [b]"] high_ne_escape [OF False]
      by (simp add: zigate_encode_Cons)
  qed
qed

lemma zigate_encode_high: "\<forall>b\<in>set x. 0x10 \<le> b \<Longrightarrow> zigate_encode x = x"
  by (induction x) (auto simp: zigate_encode_Nil zigate_encode_Cons)

text \<open>
  Claim C2. Decoding an encoded byte sequence gives the sequence back, for every byte
  sequence; and encoding leaves a sequence whose bytes are all at least \<^verbatim>\<open>0x10\<close> as
  it is.
\<close>

theorem codec_round_trip:
  "zigate_decode (zigate_encode x) = x \<and>
   ((\<forall>b\<in>set x. 0x10 \<le> b) \<longrightarrow> zigate_encode x = x)"
  using zigate_decode_loop_encode [of "[]" x] zigate_encode_high [of x]
  by (simp add: zigate_decode_def)

theorem codec_round_trip_witness:
  "zigate_decode (zigate_encode [0x00, 0x0f, 0x02, 0x10, 0xff]) = [0x00, 0x0f, 0x02, 0x10, 0xff] \<and>
   list_all (\<lambda>b. 0x10 \<le> b) [0x10, 0x7f, 0xff :: byte] \<and>
   zigate_encode [0x10, 0x7f, 0xff] = [0x10, 0x7f, 0xff]"
  using codec_round_trip [of "[0x00, 0x0f, 0x02, 0x10, 0xff]"]
    codec_round_trip [of "[0x10, 0x7f, 0xff]"]
  by simp

lemma delimiters_low: "\<not> (0x10::byte) \<le> 0x01" "\<not> (0x10::byte) \<le> 0x03"
  by (simp_all add: word_le_nat_alt)

lemma zigate_encode_bytes:
  "b \<in> set (zigate_encode x) \<Longrightarrow> b = 0x02 \<or> 0x10 \<le> b"
proof (induction x)
  case Nil
  then show ?case by (simp add: zigate_encode_Nil)
next
  case (Cons a as)
  show ?case
  proof (cases "a < 0x10")
    case True
    with Cons show ?thesis
      using low_xor_ge [OF True] by (auto simp: zigate_encode_Cons)
  next
    case False
    with Cons show ?thesis by (auto simp: zigate_encode_Cons)
  qed
qed

text \<open>
  Claim C10. Every byte of an encoded sequence is the escape marker \<^verbatim>\<open>0x02\<close> or at
  least \<^verbatim>\<open>0x10\<close>; the delimiters \<^verbatim>\<open>0x01\<close> and \<^verbatim>\<open>0x03\<close> do not occur in it, so
  in the frame that \<^verbatim>\<open>send_data\<close> wraps around it \<^verbatim>\<open>0x01\<close> stands at the first
  position only and \<^verbatim>\<open>0x03\<close> at the last only.
\<close>

theorem encoded_body_has_no_delimiter:
  "(\<forall>b\<in>set (zigate_encode x). b = 0x02 \<or> 0x10 \<le> b) \<and>
   0x01 \<notin> set (zigate_encode x) \<and> 0x03 \<notin> set (zigate_encode x) \<and>
   (\<forall>i < length (wrap_frame (zigate_encode x)).
      (wrap_frame (zigate_encode x) ! i = 0x01 \<longleftrightarrow> i = 0) \<and>
      (wrap_frame (zigate_encode x) ! i = 0x03 \<longleftrightarrow> i = length (zigate_encode x) + 1))"
proof -
  have a: "\<forall>b\<in>set (zigate_encode x). b = 0x02 \<or> 0x10 \<le> b"
    using zigate_encode_bytes by blast
  have n1: "0x01 \<notin> set (zigate_encode x)"
    using zigate_encode_bytes [of "0x01" x] delimiters_low by auto
  have n3: "0x03 \<notin> set (zigate_encode x)"
    using zigate_encode_bytes [of "0x03" x] delimiters_low by auto
  have w: "(wrap_frame (zigate_encode x) ! i = 0x01 \<longleftrightarrow> i = 0) \<and>
      (wrap_frame (zigate_encode x) ! i = 0x03 \<longleftrightarrow> i = length (zigate_encode x) + 1)"
    if "i < length (wrap_frame (zigate_encode x))" for i
  proof -
    have "i \<le> length (zigate_encode x) + 1"
      using that by (simp add: wrap_frame_def)
    then consider "i = 0" | "0 < i" "i \<le> length (zigate_encode x)"
      | "i = length (zigate_encode x) + 1"
      by linarith
    then show ?thesis
    proof cases
      case 1
      then show ?thesis by (simp add: wrap_frame_def)
    next
      case 2
      then obtain j where j: "i = Suc j" "j < length (zigate_encode x)"
        by (cases i) auto
      then have e: "wrap_frame (zigate_encode x) ! i = zigate_encode x ! j"
        by (simp add: wrap_frame_def nth_append)
      have "zigate_encode x ! j \<noteq> 0x01" "zigate_encode x ! j \<noteq> 0x03"
        using n1 n3 nth_mem [OF j(2)] by metis+
      then show ?thesis using e j by simp
    next
      case 3
      then show ?thesis by (simp add: wrap_frame_def nth_append)
    qed
  qed
  show ?thesis using a n1 n3 w by blast
qed

theorem encoded_body_has_no_delimiter_witness:
  "zigate_encode [0x01, 0x03, 0x02, 0x41] = [0x02, 0x11, 0x02, 0x13, 0x02, 0x12, 0x41] \<and>
   list_all (\<lambda>b. b = 0x02 \<or> 0x10 \<le> b) (zigate_encode [0x01, 0x03, 0x02, 0x41]) \<and>
   wrap_frame (zigate_encode [0x01, 0x03, 0x02, 0x41]) ! 0 = 0x01 \<and>
   wrap_frame (zigate_encode [0x01, 0x03, 0x02, 0x41]) ! 8 = 0x03 \<and>
   wrap_frame (zigate_encode [0x01, 0x03, 0x02, 0x41]) ! 2 \<noteq> 0x01"
  using encoded_body_has_no_delimiter [of "[0x01, 0x03, 0x02, 0x41]"]
  by (simp add: zigate_encode_def wrap_frame_def)

section \<open>Properties of the checksum\<close>

lemma checksum_bytes_acc: "checksum_bytes c xs = c XOR checksum_bytes 0 xs"
proof (induction xs arbitrary: c)
  case Nil
  show ?case by simp
next
  case (Cons x xs)
  show ?case
    using Cons.IH [of "c XOR uint x"] Cons.IH [of "uint x"] by (simp add: ac_simps)
qed

lemma checksum_loop_single: "checksum_loop c [a] = c XOR arg_fold a"
  using checksum_bytes_acc [of c] by (cases a) (simp_all add: arg_fold_def)

lemma checksum_loop_fold: "checksum_loop c args = fold (\<lambda>a c. c XOR arg_fold a) args c"
proof (induction args arbitrary: c)
  case Nil
  show ?case by simp
next
  case (Cons a args)
  have "checksum_loop c (a # args) = checksum_loop (checksum_loop c [a]) args"
    by (cases a) simp_all
  then show ?case using Cons.IH by (simp add: checksum_loop_single)
qed

lemma checksum_permutation:
  assumes "mset args = mset args'"
  shows "checksum args = checksum args'"
proof -
  have "fold (\<lambda>a c. c XOR arg_fold a) args = fold (\<lambda>a c. c XOR arg_fold a) args'"
    by (rule fold_multiset_equiv [OF _ assms]) (simp add: fun_eq_iff ac_simps)
  then show ?thesis by (simp add: checksum_def checksum_loop_fold)
qed

text \<open>
  Claim C9, as amended. For all arguments, integers or byte sequences,
  \<^verbatim>\<open>checksum(a, b, c)\<close> equals \<^verbatim>\<open>checksum(c, b, a)\<close>; more generally the checksum
  is the same for every permutation of its arguments.
\<close>

theorem checksum_order_irrelevant:
  "checksum [a, b, c] = checksum [c, b, a] \<and>
   (mset args = mset args' \<longrightarrow> checksum args = checksum args')"
proof -
  have "mset [a, b, c] = mset [c, b, a]" by (simp add: ac_simps)
  then show ?thesis using checksum_permutation by blast
qed

theorem checksum_order_irrelevant_witness:
  "mset [IntArg 0x1234, BytesArg [0x80, 0x15], BytesArg [0x01, 0x02]]
     = mset [BytesArg [0x01, 0x02], IntArg 0x1234, BytesArg [0x80, 0x15]] \<and>
   checksum [IntArg 0x1234, BytesArg [0x80, 0x15], BytesArg [0x01, 0x02]] = 0x12a2 \<and>
   checksum [BytesArg [0x01, 0x02], IntArg 0x1234, BytesArg [0x80, 0x15]] = 0x12a2 \<and>
   checksum [BytesArg [0x01, 0x02], BytesArg [0x80, 0x15], IntArg 0x1234] = 0x12a2"
  using checksum_order_irrelevant [of "IntArg 0x1234" "BytesArg [0x80, 0x15]" "BytesArg [0x01, 0x02]"
      "[IntArg 0x1234, BytesArg [0x80, 0x15], BytesArg [0x01, 0x02]]"
      "[BytesArg [0x01, 0x02], IntArg 0x1234, BytesArg [0x80, 0x15]]"]
  by (simp add: checksum_def)

text \<open>
  Claim C9 as stated asks for arguments whose checksum changes when the first and the
  last are exchanged. There are none.
\<close>

theorem checksum_reversal_counterexample:
  "\<not> (\<exists>a b c. checksum [a, b, c] \<noteq> checksum [c, b, a])"
proof -
  have "checksum [a, b, c] = checksum [c, b, a]" for a b c
    by (rule checksum_permutation) (simp add: ac_simps)
  then show ?thesis by blast
qed

section \<open>Properties of \<^verbatim>\<open>need_refresh\<close>\<close>




section \<open>Properties of \<^verbatim>\<open>decode_data\<close>\<close>

lemma unpack_be16_hi: "ucast (drop_bit 8 (unpack_be16 hi lo)) = hi"
  unfolding unpack_be16_def
  by (rule bit_word_eqI) (auto simp: bit_simps dest: bit_imp_le_length)

lemma unpack_be16_lo: "ucast (unpack_be16 hi lo) = lo"
  unfolding unpack_be16_def
  by (rule bit_word_eqI) (auto simp: bit_simps dest: bit_imp_le_length)

lemma be16_unpack_be16: "be16 (unpack_be16 hi lo) = [hi, lo]"
  by (simp add: be16_def unpack_be16_hi unpack_be16_lo)

lemma take4: "4 \<le> length xs \<Longrightarrow> take 4 xs = [xs ! 0, xs ! 1, xs ! 2, xs ! 3]"
  by (cases xs; simp; rename_tac ys; case_tac ys; simp; rename_tac zs; case_tac zs; simp;
      rename_tac ws; case_tac ws; simp)

lemma unpack_frame_header:
  assumes "unpack_frame decoded = Some f"
  shows "take 4 decoded = be16 (msg_type f) @ be16 (f_length f)"
proof -
  from assms have len: "6 \<le> length decoded"
    by (simp add: unpack_frame_def split: if_splits)
  with assms have "msg_type f = unpack_be16 (decoded ! 0) (decoded ! 1)"
    and "f_length f = unpack_be16 (decoded ! 2) (decoded ! 3)"
    by (auto simp: unpack_frame_def)
  then show ?thesis using len by (simp add: be16_unpack_be16 take4)
qed

text \<open>
  Claim C3. A packet whose decoded frame has a length field other than the length of the
  payload plus one, or a checksum byte other than the XOR of the message type bytes, the
  length bytes, the RSSI and the payload, is discarded: \<^verbatim>\<open>decode_data\<close> returns
  (it has no raising path) and leaves the whole state as it was, so no device is created,
  updated, removed or renamed and no response is cached, whatever the response decoders
  and the subscribers are.
\<close>

theorem malformed_frame_discarded:
  assumes "unpack_frame (zigate_decode (butlast (drop 1 packet))) = Some f"
    and "unat (f_length f) \<noteq> length (f_value f) + 1 \<or>
         uint (f_checksum f) \<noteq>
           checksum [BytesArg (be16 (msg_type f) @ be16 (f_length f)),
                     IntArg (uint (f_rssi f)), BytesArg (f_value f)]"
  shows "decode_data mk_response receivers packet st =
           (if unat (f_length f) \<noteq> length (f_value f) + 1 then BadLength else BadChecksum, st)"
  using assms unpack_frame_header [OF assms(1)]
  by (simp add: decode_data_def Let_def)

theorem malformed_frame_discarded_witness:
  "decode_data (\<lambda>m v r. Some (m, v, r)) (\<lambda>r st. st\<lparr>devices := []\<rparr>)
     [0x01, 0x80, 0x02, 0x10, 0x02, 0x10, 0x02, 0x11, 0x80, 0x02, 0x10, 0x03] example_state
     = (BadChecksum, example_state) \<and>
   decode_data (\<lambda>m v r. Some (m, v, r)) (\<lambda>r st. st\<lparr>devices := []\<rparr>)
     [0x01, 0x80, 0x02, 0x10, 0x02, 0x10, 0x02, 0x12, 0x82, 0x02, 0x10, 0x03] example_state
     = (BadLength, example_state)"
proof -
  have u1: "unpack_frame (zigate_decode (butlast (drop 1
        [0x01, 0x80, 0x02, 0x10, 0x02, 0x10, 0x02, 0x11, 0x80, 0x02, 0x10, 0x03])))
      = Some \<lparr>msg_type = 0x8000, f_length = 1, f_checksum = 0x80, f_value = [], f_rssi = 0\<rparr>"
    by (simp add: zigate_decode_def unpack_frame_def unpack_be16_def)
  have u2: "unpack_frame (zigate_decode (butlast (drop 1
        [0x01, 0x80, 0x02, 0x10, 0x02, 0x10, 0x02, 0x12, 0x82, 0x02, 0x10, 0x03])))
      = Some \<lparr>msg_type = 0x8000, f_length = 2, f_checksum = 0x82, f_value = [], f_rssi = 0\<rparr>"
    by (simp add: zigate_decode_def unpack_frame_def unpack_be16_def)
  show ?thesis
    using malformed_frame_discarded [OF u1, of "\<lambda>m v r. Some (m, v, r)"
        "\<lambda>r st. st\<lparr>devices := []\<rparr>" example_state]
      malformed_frame_discarded [OF u2, of "\<lambda>m v r. Some (m, v, r)"
        "\<lambda>r st. st\<lparr>devices := []\<rparr>" example_state]
    by (simp add: checksum_def be16_def)
qed

section \<open>Sending and waiting leave the directory alone\<close>

lemma apply_tick_frame [simp]:
  "devices (apply_tick t st) = devices st"
  "signals (apply_tick t st) = signals st"
  "ota (apply_tick t st) = ota st"
  "connected (apply_tick t st) = connected st"
  "sent (apply_tick t st) = sent st"
  "no_response_count (apply_tick t st) = no_response_count st"
  by (simp_all add: apply_tick_def)

declare wait_status_loop.simps [simp del] wait_response_loop.simps [simp del]

lemma wait_status_loop_found:
  "status_get st cmd = Some s \<Longrightarrow>
   wait_status_loop cmd t1 st = (Return (Some s), st\<lparr>no_response_count := 0\<rparr>)"
  by (subst wait_status_loop.simps) simp

lemma wait_status_loop_hang:
  "status_get st cmd = None \<Longrightarrow> script st = [] \<Longrightarrow> wait_status_loop cmd t1 st = (Hang, st)"
  by (subst wait_status_loop.simps) simp

lemma wait_status_loop_timeout:
  "status_get st cmd = None \<Longrightarrow> script st = t # ts \<Longrightarrow>
   st' = apply_tick t (st\<lparr>script := ts\<rparr>) \<Longrightarrow> clock st' - t1 > 3 \<Longrightarrow>
   wait_status_loop cmd t1 st
     = (Return None, st'\<lparr>no_response_count := no_response_count st' + 1\<rparr>)"
  by (subst wait_status_loop.simps) (simp add: Let_def)

lemma wait_status_loop_again:
  "status_get st cmd = None \<Longrightarrow> script st = t # ts \<Longrightarrow>
   st' = apply_tick t (st\<lparr>script := ts\<rparr>) \<Longrightarrow> \<not> clock st' - t1 > 3 \<Longrightarrow>
   wait_status_loop cmd t1 st = wait_status_loop cmd t1 st'"
  by (subst wait_status_loop.simps) (simp add: Let_def)

lemma wait_status_loop_frame:
  "devices (snd (wait_status_loop cmd t1 st)) = devices st \<and>
   signals (snd (wait_status_loop cmd t1 st)) = signals st \<and>
   ota (snd (wait_status_loop cmd t1 st)) = ota st \<and>
   connected (snd (wait_status_loop cmd t1 st)) = connected st \<and>
   sent (snd (wait_status_loop cmd t1 st)) = sent st"
proof (induction cmd t1 st rule: wait_status_loop.induct)
  case (1 cmd t1 st)
  show ?case
  proof (cases "status_get st cmd")
    case (Some s)
    then show ?thesis by (simp add: wait_status_loop_found)
  next
    case None
    show ?thesis
    proof (cases "script st")
      case Nil
      with None show ?thesis by (simp add: wait_status_loop_hang)
    next
      case (Cons t ts)
      define st' where "st' = apply_tick t (st\<lparr>script := ts\<rparr>)"
      show ?thesis
      proof (cases "clock st' - t1 > 3")
        case True
        then show ?thesis
          using wait_status_loop_timeout [OF None Cons st'_def] by (simp add: st'_def)
      next
        case False
        then show ?thesis
          using wait_status_loop_again [OF None Cons st'_def] "1.IH" [OF None Cons st'_def refl]
          by (simp add: st'_def)
      qed
    qed
  qed
qed

lemma wait_response_loop_found:
  "map_of (last_response st) m = Some r \<Longrightarrow>
   wait_response_loop m t1 st = (Return (Some r), st)"
  by (subst wait_response_loop.simps) simp

lemma wait_response_loop_hang:
  "map_of (last_response st) m = None \<Longrightarrow> script st = [] \<Longrightarrow>
   wait_response_loop m t1 st = (Hang, st)"
  by (subst wait_response_loop.simps) simp

lemma wait_response_loop_timeout:
  "map_of (last_response st) m = None \<Longrightarrow> script st = t # ts \<Longrightarrow>
   st' = apply_tick t (st\<lparr>script := ts\<rparr>) \<Longrightarrow> clock st' - t1 > 3 \<Longrightarrow>
   wait_response_loop m t1 st = (Return None, st')"
  by (subst wait_response_loop.simps) (simp add: Let_def)

lemma wait_response_loop_again:
  "map_of (last_response st) m = None \<Longrightarrow> script st = t # ts \<Longrightarrow>
   st' = apply_tick t (st\<lparr>script := ts\<rparr>) \<Longrightarrow> \<not> clock st' - t1 > 3 \<Longrightarrow>
   wait_response_loop m t1 st = wait_response_loop m t1 st'"
  by (subst wait_response_loop.simps) (simp add: Let_def)

lemma wait_response_loop_frame:
  "devices (snd (wait_response_loop m t1 st)) = devices st \<and>
   signals (snd (wait_response_loop m t1 st)) = signals st \<and>
   ota (snd (wait_response_loop m t1 st)) = ota st \<and>
   connected (snd (wait_response_loop m t1 st)) = connected st \<and>
   sent (snd (wait_response_loop m t1 st)) = sent st"
proof (induction m t1 st rule: wait_response_loop.induct)
  case (1 m t1 st)
  show ?case
  proof (cases "map_of (last_response st) m")
    case (Some r)
    then show ?thesis by (simp add: wait_response_loop_found)
  next
    case None
    show ?thesis
    proof (cases "script st")
      case Nil
      with None show ?thesis by (simp add: wait_response_loop_hang)
    next
      case (Cons t ts)
      define st' where "st' = apply_tick t (st\<lparr>script := ts\<rparr>)"
      show ?thesis
      proof (cases "clock st' - t1 > 3")
        case True
        then show ?thesis
          using wait_response_loop_timeout [OF None Cons st'_def] by (simp add: st'_def)
      next
        case False
        then show ?thesis
          using wait_response_loop_again [OF None Cons st'_def]
            "1.IH" [OF None Cons st'_def refl]
          by (simp add: st'_def)
      qed
    qed
  qed
qed

lemma same_directory_refl [simp]: "same_directory s s"
  by (simp add: same_directory_def)

lemma same_directory_trans: "same_directory s t \<Longrightarrow> same_directory t u \<Longrightarrow> same_directory s u"
  by (simp add: same_directory_def)

lemma then_do_same_directory:
  assumes "same_directory (snd m) s0"
    and "\<And>a s. same_directory s s0 \<Longrightarrow> same_directory (snd (f a s)) s0"
  shows "same_directory (snd (then_do m f)) s0"
proof (cases m)
  case (Pair r s)
  with assms show ?thesis by (cases r) (simp_all add: then_do_def)
qed

lemma wait_status_same_directory: "same_directory (snd (wait_status cmd st)) st"
  using wait_status_loop_frame [of cmd "clock st" st]
  by (simp add: wait_status_def same_directory_def)

lemma wait_response_same_directory: "same_directory (snd (wait_response m st)) st"
  using wait_response_loop_frame [of m "clock st" st]
  by (simp add: wait_response_def same_directory_def)

lemma send_to_transport_same_directory: "same_directory (snd (send_to_transport data st)) st"
  by (simp add: send_to_transport_def same_directory_def)

lemma send_data_same_directory:
  "same_directory (snd (send_data cmd data wait_resp wait_stat st)) st"
proof -
  define waiting where "waiting = (case wait_resp of None \<Rightarrow> False | Some m \<Rightarrow> m \<noteq> 0)"
  define st2 where "st2 =
    (if waiting then clear_response (the wait_resp)
        (st\<lparr>last_status := AList.update cmd None (last_status st)\<rparr>)
     else st\<lparr>last_status := AList.update cmd None (last_status st)\<rparr>)"
  have s2: "same_directory st2 st"
    by (simp add: st2_def same_directory_def clear_response_def)
  have rest: "same_directory (snd (
      then_do (send_to_transport frame st2)
        (\<lambda>_ st3.
           if wait_stat then
             then_do (wait_status cmd st3)
               (\<lambda>status st4.
                  if waiting \<and> status \<noteq> None then
                    then_do (wait_response (the wait_resp) st4)
                      (\<lambda>r st5. (Return (SendResponse r), st5))
                  else (Return (SendStatus status), st4))
           else (Return SendFalse, st3)))) st" for frame
  proof (rule then_do_same_directory)
    show "same_directory (snd (send_to_transport frame st2)) st"
      using send_to_transport_same_directory s2 by (rule same_directory_trans)
  next
    fix a :: unit and s :: "'a zigate"
    assume s: "same_directory s st"
    show "same_directory (snd (
           if wait_stat then
             then_do (wait_status cmd s)
               (\<lambda>status st4.
                  if waiting \<and> status \<noteq> None then
                    then_do (wait_response (the wait_resp) st4)
                      (\<lambda>r st5. (Return (SendResponse r), st5))
                  else (Return (SendStatus status), st4))
           else (Return SendFalse, s))) st"
    proof (cases wait_stat)
      case False
      with s show ?thesis by simp
    next
      case True
      have "same_directory (snd (then_do (wait_status cmd s)
               (\<lambda>status st4.
                  if waiting \<and> status \<noteq> None then
                    then_do (wait_response (the wait_resp) st4)
                      (\<lambda>r st5. (Return (SendResponse r), st5))
                  else (Return (SendStatus status), st4)))) st"
      proof (rule then_do_same_directory)
        show "same_directory (snd (wait_status cmd s)) st"
          using wait_status_same_directory s by (rule same_directory_trans)
      next
        fix status :: "int option" and s4 :: "'a zigate"
        assume s4: "same_directory s4 st"
        show "same_directory (snd (
                  if waiting \<and> status \<noteq> None then
                    then_do (wait_response (the wait_resp) s4)
                      (\<lambda>r st5. (Return (SendResponse r), st5))
                  else (Return (SendStatus status), s4))) st"
        proof (cases "waiting \<and> status \<noteq> None")
          case False
          with s4 show ?thesis by auto
        next
          case True
          have wr: "same_directory (snd (wait_response (the wait_resp) s4)) st"
            using wait_response_same_directory s4 by (rule same_directory_trans)
          have "same_directory (snd (then_do (wait_response (the wait_resp) s4)
                      (\<lambda>r st5. (Return (SendResponse r), st5)))) st"
            by (rule then_do_same_directory [OF wr]) simp
          with True show ?thesis by simp
        qed
      qed
      with True show ?thesis by simp
    qed
  qed
  have eq: "send_data cmd data wait_resp wait_stat st =
     (case byte_data_of data of
        Inl e \<Rightarrow> (Raise e, st2)
      | Inr byte_data \<Rightarrow>
          if 65535 < length byte_data then (Raise StructError, st2)
          else
            then_do (send_to_transport (wrap_frame (zigate_encode (build_msg cmd byte_data))) st2)
              (\<lambda>_ st3.
                 if wait_stat then
                   then_do (wait_status cmd st3)
                     (\<lambda>status st4.
                        if waiting \<and> status \<noteq> None then
                          then_do (wait_response (the wait_resp) st4)
                            (\<lambda>r st5. (Return (SendResponse r), st5))
                        else (Return (SendStatus status), st4))
                 else (Return SendFalse, st3)))"
    unfolding send_data_def Let_def st2_def waiting_def ..
  show ?thesis
    unfolding eq using s2 rest by (simp split: sum.splits)
qed

lemma refresh_device_same_directory: "same_directory (snd (refresh_device a st)) st"
  unfolding refresh_device_def node_descriptor_request_def active_endpoint_request_def
  by (rule then_do_same_directory, rule send_data_same_directory,
      rule then_do_same_directory,
      (rule same_directory_trans [OF send_data_same_directory], assumption), simp)

section \<open>Properties of the OTA transfer\<close>

lemma send_data_nowait:
  assumes "connected st" and "length bs \<le> 65535"
  shows "send_data cmd (PBytes bs) None False st =
     (Return SendFalse,
      st\<lparr>last_status := AList.update cmd None (last_status st),
         sent := sent st @ [wrap_frame (zigate_encode (build_msg cmd bs))]\<rparr>)"
  using assms
  by (simp add: send_data_def byte_data_of_def then_do_def send_to_transport_def)

lemma send_data_not_connected:
  assumes "\<not> connected st" and "length bs \<le> 65535"
  shows "send_data cmd (PBytes bs) None wait_stat st =
     (Raise NotConnected, st\<lparr>last_status := AList.update cmd None (last_status st)\<rparr>)"
  using assms
  by (simp add: send_data_def byte_data_of_def then_do_def send_to_transport_def)

lemma block_response_payload_layout:
  "block_response_payload request h chunk ! 5 = rq_sequence request"
  "drop 20 (block_response_payload request h chunk) = chunk"
  "length (block_response_payload request h chunk) = 20 + length chunk"
  by (simp_all add: block_response_payload_def be16_def be32_def)

lemma ota_send_image_data_match:
  assumes h: "ota_header (ota st) = Some h" and img: "ota_data (ota st) = Some img"
    and c: "ota_consistent (ota st)"
    and m: "rq_image_version request = image_version h"
      "rq_image_type request = image_type h"
      "rq_manufacturer_code request = manufacturer_code h"
  shows "ota_send_image_data request st =
     then_do
       (send_data 0x0502
          (PBytes (block_response_payload request h
             (take (unat (rq_max_data_size request)) (drop (unat (rq_file_offset request)) img))))
          None False
          (st\<lparr>ota := (if ota_starttime (ota st) = None \<and> \<not> ota_active (ota st)
                       then (ota st)\<lparr>ota_starttime := Some (clock st), ota_active := True,
                                      ota_transfered := 0, ota_addr := Some (rq_addr request)\<rparr>
                       else ota st)\<lparr>ota_transfered := unat (rq_file_offset request)\<rparr>\<rparr>))
       (\<lambda>_ st2. (Return (), st2))"
proof -
  have "img \<noteq> []" using c img by (simp add: ota_consistent_def)
  moreover have "ota_active (ota st) \<Longrightarrow> ota_starttime (ota st) \<noteq> None"
    using c by (simp add: ota_consistent_def)
  ultimately show ?thesis
    using h img m
    by (auto simp: ota_send_image_data_def Let_def get_ota_status_def)
qed

lemma block_response_payload_fits:
  "length (block_response_payload request h
      (take (unat (rq_max_data_size request)) (drop n img))) \<le> 65535"
proof -
  have "unat (rq_max_data_size request) < 2 ^ LENGTH(8)"
    by (rule unsigned_less)
  then have "unat (rq_max_data_size request) < 256" by simp
  then show ?thesis by (simp add: block_response_payload_layout)
qed

lemma ota_send_image_data_connected:
  assumes "ota_header (ota st) = Some h" and "ota_data (ota st) = Some img"
    and "ota_consistent (ota st)"
    and "rq_image_version request = image_version h"
      "rq_image_type request = image_type h"
      "rq_manufacturer_code request = manufacturer_code h"
    and "connected st"
  shows "fst (ota_send_image_data request st) = Return ()"
    and "sent (snd (ota_send_image_data request st)) =
      sent st @ [wrap_frame (zigate_encode (build_msg 0x0502
        (block_response_payload request h
           (take (unat (rq_max_data_size request))
              (drop (unat (rq_file_offset request)) img)))))]"
    and "ota_transfered (ota (snd (ota_send_image_data request st)))
      = unat (rq_file_offset request)"
  using assms(7) block_response_payload_fits
  by (simp_all add: ota_send_image_data_match [OF assms(1-6)] send_data_nowait then_do_def)

lemma ota_send_image_data_not_connected:
  assumes "ota_header (ota st) = Some h" and "ota_data (ota st) = Some img"
    and "ota_consistent (ota st)"
    and "rq_image_version request = image_version h"
      "rq_image_type request = image_type h"
      "rq_manufacturer_code request = manufacturer_code h"
    and "\<not> connected st"
  shows "fst (ota_send_image_data request st) = Raise NotConnected"
    and "sent (snd (ota_send_image_data request st)) = sent st"
    and "ota_transfered (ota (snd (ota_send_image_data request st)))
      = unat (rq_file_offset request)"
  using assms(7) block_response_payload_fits
  by (simp_all add: ota_send_image_data_match [OF assms(1-6)] send_data_not_connected
      then_do_def)

text \<open>
  Claim C4, as amended. While a header and an image are loaded: when the image version,
  image type and manufacturer code of a block request equal those of the header and the
  transport is connected, \<^verbatim>\<open>_ota_send_image_data\<close> hands one frame to the transport,
  that of command \<^verbatim>\<open>0x0502\<close> whose payload carries the sequence number of the request
  at index 5 and, from index 20 on, the bytes
  \<^verbatim>\<open>image_data[file_offset : file_offset + max_data_size]\<close>, and sets the transferred
  counter to the file offset; when they are equal and the transport is not connected,
  the counter is set all the same, nothing is handed over and the call raises; when one
  of the three differs, nothing is sent and the state is unchanged.
\<close>

theorem ota_block_request_served:
  fixes request :: block_request and h :: image_header and img :: "byte list"
  assumes "ota_header (ota st) = Some h" and "ota_data (ota st) = Some img"
    and "ota_consistent (ota st)"
  defines "chunk \<equiv>
      take (unat (rq_max_data_size request)) (drop (unat (rq_file_offset request)) img)"
  defines "payload \<equiv> block_response_payload request h chunk"
  defines "matching \<equiv>
      rq_image_version request = image_version h \<and> rq_image_type request = image_type h \<and>
      rq_manufacturer_code request = manufacturer_code h"
  shows
    "(matching \<and> connected st \<longrightarrow>
        fst (ota_send_image_data request st) = Return () \<and>
        sent (snd (ota_send_image_data request st))
          = sent st @ [wrap_frame (zigate_encode (build_msg 0x0502 payload))] \<and>
        payload ! 5 = rq_sequence request \<and> drop 20 payload = chunk \<and>
        ota_transfered (ota (snd (ota_send_image_data request st)))
          = unat (rq_file_offset request)) \<and>
     (matching \<and> \<not> connected st \<longrightarrow>
        fst (ota_send_image_data request st) = Raise NotConnected \<and>
        sent (snd (ota_send_image_data request st)) = sent st \<and>
        ota_transfered (ota (snd (ota_send_image_data request st)))
          = unat (rq_file_offset request)) \<and>
     (\<not> matching \<longrightarrow> ota_send_image_data request st = (Return (), st))"
proof -
  have lay: "payload ! 5 = rq_sequence request" "drop 20 payload = chunk"
    by (simp_all add: payload_def block_response_payload_layout)
  have a: ?thesis if "\<not> matching"
    using that assms(1,2) by (auto simp: ota_send_image_data_def matching_def)
  have b: ?thesis if "matching" "connected st"
    using that lay ota_send_image_data_connected [OF assms(1-3), of request]
    by (simp add: matching_def payload_def chunk_def)
  have c: ?thesis if "matching" "\<not> connected st"
    using that ota_send_image_data_not_connected [OF assms(1-3), of request]
    by (simp add: matching_def)
  show ?thesis using a b c by blast
qed

theorem ota_block_request_served_witness:
  "fst (ota_send_image_data example_request
     ((example_state :: unit zigate)\<lparr>ota := example_transfer\<rparr>)) = Return () \<and>
   sent (snd (ota_send_image_data example_request
     ((example_state :: unit zigate)\<lparr>ota := example_transfer\<rparr>)))
     = [wrap_frame (zigate_encode (build_msg 0x0502
          (block_response_payload example_request example_header (map of_nat [100..<150]))))] \<and>
   length (map of_nat [100..<150] :: byte list) = 50 \<and>
   ota_transfered (ota (snd (ota_send_image_data example_request
     ((example_state :: unit zigate)\<lparr>ota := example_transfer\<rparr>)))) = 100 \<and>
   ota_send_image_data (example_request\<lparr>rq_image_version := 6\<rparr>)
     ((example_state :: unit zigate)\<lparr>ota := example_transfer\<rparr>)
   = (Return (), example_state\<lparr>ota := example_transfer\<rparr>)"
proof -
  have l: "ota_header (ota ((example_state :: unit zigate)\<lparr>ota := example_transfer\<rparr>))
      = Some example_header"
    "ota_data (ota ((example_state :: unit zigate)\<lparr>ota := example_transfer\<rparr>))
      = Some example_image"
    "ota_consistent (ota ((example_state :: unit zigate)\<lparr>ota := example_transfer\<rparr>))"
    by (simp_all add: example_transfer_def ota_consistent_def example_image_def)
  have c: "take 50 (drop 100 example_image) = map of_nat [100..<150]"
    by (simp add: example_image_def take_map drop_map)
  have s: "sent ((example_state :: unit zigate)\<lparr>ota := example_transfer\<rparr>) = []"
    "connected ((example_state :: unit zigate)\<lparr>ota := example_transfer\<rparr>)"
    by (simp_all add: example_state_def)
  show ?thesis
    using ota_block_request_served [OF l, of example_request]
      ota_block_request_served [OF l, of "example_request\<lparr>rq_image_version := 6\<rparr>"]
    by (simp add: example_request_def example_header_def c s)
qed

text \<open>
  Claim C4 as stated promises the transmission for every request that matches a loaded
  image. With the transport disconnected the request of the example matches and nothing
  is transmitted.
\<close>

theorem ota_block_request_disconnected_counterexample:
  "ota_header (ota ((example_state :: unit zigate)\<lparr>ota := example_transfer, connected := False\<rparr>))
     = Some example_header \<and>
   ota_data (ota ((example_state :: unit zigate)\<lparr>ota := example_transfer, connected := False\<rparr>))
     = Some example_image \<and>
   rq_image_version example_request = image_version example_header \<and>
   rq_image_type example_request = image_type example_header \<and>
   rq_manufacturer_code example_request = manufacturer_code example_header \<and>
   fst (ota_send_image_data example_request
     ((example_state :: unit zigate)\<lparr>ota := example_transfer, connected := False\<rparr>))
     = Raise NotConnected \<and>
   sent (snd (ota_send_image_data example_request
     ((example_state :: unit zigate)\<lparr>ota := example_transfer, connected := False\<rparr>))) = []"
proof -
  define st :: "unit zigate"
    where "st = example_state\<lparr>ota := example_transfer, connected := False\<rparr>"
  have l: "ota_header (ota st) = Some example_header"
    "ota_data (ota st) = Some example_image" "ota_consistent (ota st)"
    by (simp_all add: st_def example_transfer_def ota_consistent_def example_image_def)
  have m: "rq_image_version example_request = image_version example_header"
    "rq_image_type example_request = image_type example_header"
    "rq_manufacturer_code example_request = manufacturer_code example_header"
    by (simp_all add: example_request_def example_header_def)
  have d: "\<not> connected st" "sent st = []"
    by (simp_all add: st_def example_state_def)
  have "fst (ota_send_image_data example_request st) = Raise NotConnected \<and>
      sent (snd (ota_send_image_data example_request st)) = []"
    using ota_send_image_data_not_connected [OF l m d(1)] d(2) by simp
  with l(1,2) m show ?thesis unfolding st_def by simp
qed

lemma ota_reset_value_consistent: "ota_consistent ota_reset_value"
  by (simp add: ota_consistent_def ota_reset_value_def)

lemma then_do_ota:
  assumes "ota (snd m) = x" and "\<And>a s. ota s = x \<Longrightarrow> ota (snd (f a s)) = x"
  shows "ota (snd (then_do m f)) = x"
proof (cases m)
  case (Pair r s)
  with assms show ?thesis by (cases r) (simp_all add: then_do_def)
qed

lemma send_data_ota: "ota (snd (send_data cmd data wait_resp wait_stat st)) = ota st"
  using send_data_same_directory [of cmd data wait_resp wait_stat st]
  by (simp add: same_directory_def)

lemma ota_send_image_data_consistent:
  assumes "ota_consistent (ota st)"
  shows "ota_consistent (ota (snd (ota_send_image_data request st)))"
proof (cases "ota_header (ota st)")
  case None
  with assms show ?thesis by (simp add: ota_send_image_data_def)
next
  case h: (Some h)
  show ?thesis
  proof (cases "ota_data (ota st)")
    case None
    with h assms show ?thesis by (simp add: ota_send_image_data_def)
  next
    case img: (Some img)
    show ?thesis
    proof (cases "rq_image_version request = image_version h \<and>
        rq_image_type request = image_type h \<and>
        rq_manufacturer_code request = manufacturer_code h")
      case False
      with h img assms show ?thesis by (auto simp: ota_send_image_data_def)
    next
      case True
      then have m: "rq_image_version request = image_version h"
        "rq_image_type request = image_type h"
        "rq_manufacturer_code request = manufacturer_code h"
        by simp_all
      have "ota (snd (ota_send_image_data request st)) =
        (if ota_starttime (ota st) = None \<and> \<not> ota_active (ota st)
         then (ota st)\<lparr>ota_starttime := Some (clock st), ota_active := True,
                        ota_transfered := 0, ota_addr := Some (rq_addr request)\<rparr>
         else ota st)\<lparr>ota_transfered := unat (rq_file_offset request)\<rparr>"
        unfolding ota_send_image_data_match [OF h img assms m]
        by (rule then_do_ota) (simp_all add: send_data_ota)
      with assms show ?thesis by (auto simp: ota_consistent_def)
    qed
  qed
qed

lemma ota_handle_upgrade_end_request_consistent:
  assumes "ota_consistent (ota st)"
  shows "ota_consistent (ota (snd (ota_handle_upgrade_end_request status st)))"
  using assms ota_reset_value_consistent
  by (simp add: ota_handle_upgrade_end_request_def ota_reset_local_variables_def)

lemma ota_load_image_consistent:
  assumes "ota_consistent (ota st)"
  shows "ota_consistent (ota (snd (ota_load_image file st)))"
proof (cases "ota_active (ota st)")
  case True
  with assms show ?thesis
    by (simp add: ota_load_image_def split: outcome.splits)
next
  case False
  show ?thesis
  proof (cases "file")
    case None
    with False assms show ?thesis by (simp add: ota_load_image_def)
  next
    case (Some content)
    have "ota_consistent (ota (snd (
        then_do (send_data 0x0500 (PBytes (image_header_payload content)) None True st)
          (\<lambda>response st1.
             if response = SendStatus (Some 0) then
               (Return None,
                st1\<lparr>ota := ota_reset_value\<lparr>ota_header := Some hd,
                                            ota_data := Some content\<rparr>\<rparr>)
             else (Return None, st1)))))"
      if "69 \<le> length content" for hd
    proof (cases "send_data 0x0500 (PBytes (image_header_payload content)) None True st")
      case (Pair r s)
      have "ota s = ota st" using send_data_ota [of "0x0500" _ None True st] Pair
        by (metis snd_conv)
      with that assms Pair show ?thesis
        by (cases r) (auto simp: then_do_def ota_consistent_def ota_reset_value_def)
    qed
    with Some False assms show ?thesis
      by (auto simp: ota_load_image_def Let_def not_less)
  qed
qed

text \<open>
  Claim C5. An upgrade end request that arrives while the session is active resets the
  session, whatever its status byte: header and image data are cleared, the session is
  inactive, the transferred counter is 0, the target address and the start time are
  cleared.
\<close>

theorem upgrade_end_resets_session:
  assumes "ota_consistent (ota st)" and "ota_active (ota st)"
  shows "ota_handle_upgrade_end_request status st = (Return (), st\<lparr>ota := ota_reset_value\<rparr>) \<and>
    ota_header ota_reset_value = None \<and> ota_data ota_reset_value = None \<and>
    \<not> ota_active ota_reset_value \<and> ota_transfered ota_reset_value = 0 \<and>
    ota_addr ota_reset_value = None \<and> ota_starttime ota_reset_value = None"
  using assms
  by (auto simp: ota_handle_upgrade_end_request_def ota_consistent_def
      ota_reset_local_variables_def ota_reset_value_def)

theorem upgrade_end_resets_session_witness:
  "ota_consistent example_transfer \<and> ota_active example_transfer \<and>
   ota_handle_upgrade_end_request 0x00
       ((example_state :: unit zigate)\<lparr>ota := example_transfer\<rparr>)
     = (Return (), example_state) \<and>
   ota_handle_upgrade_end_request 0x95
       ((example_state :: unit zigate)\<lparr>ota := example_transfer\<rparr>)
     = (Return (), example_state) \<and>
   ota_handle_upgrade_end_request 0x42
       ((example_state :: unit zigate)\<lparr>ota := example_transfer\<rparr>)
     = (Return (), example_state)"
proof -
  have l: "ota_consistent (ota ((example_state :: unit zigate)\<lparr>ota := example_transfer\<rparr>))"
    "ota_active (ota ((example_state :: unit zigate)\<lparr>ota := example_transfer\<rparr>))"
    by (simp_all add: example_transfer_def ota_consistent_def example_image_def)
  have e: "(example_state :: unit zigate)\<lparr>ota := example_transfer, ota := ota_reset_value\<rparr>
      = example_state"
    by (simp add: example_state_def)
  show ?thesis
    using upgrade_end_resets_session [OF l, of "0x00"] upgrade_end_resets_session [OF l, of "0x95"]
      upgrade_end_resets_session [OF l, of "0x42"] l e
    by simp
qed

section \<open>Properties of \<^verbatim>\<open>_tag_missing\<close>\<close>









lemma length_pad2 [simp]: "length (pad2 n) = 2"
  by (simp add: pad2_def)




lemma length_pad4 [simp]: "length (pad4 n) = 4"
  by (simp add: pad4_def)



lemma tag_missing_untracked:
  "map_of (devices st) a = None \<Longrightarrow> tag_missing last_24h a st = (Return (), st)"
  by (simp add: tag_missing_def)



section \<open>Properties of the device directory\<close>

lemma update_new_key: "k \<notin> fst ` set al \<Longrightarrow> AList.update k v al = al @ [(k, v)]"
  by (induction al) auto

lemma delete_append: "AList.delete k (xs @ ys) = AList.delete k xs @ AList.delete k ys"
  by (simp add: AList.delete_eq)

lemma map_of_dict_update:
  "distinct (map fst other) \<Longrightarrow> map_of (dict_update d other) = map_of d ++ map_of other"
  unfolding dict_update_def
proof (induction other arbitrary: d)
  case Nil
  show ?case by simp
next
  case (Cons p other)
  obtain k v where p: "p = (k, v)" by (cases p)
  from Cons.prems p have k: "map_of other k = None" and dist: "distinct (map fst other)"
    by (simp_all add: map_of_eq_None_iff)
  show ?case
    using k by (auto simp: p Cons.IH [OF dist] update_conv' fun_eq_iff map_add_def
        split: option.splits)
qed

lemma addr_device_update:
  "distinct (map fst (info dev)) \<Longrightarrow> addr dev = Some a \<Longrightarrow>
   addr (device_update d dev) = Some a"
  by (simp add: addr_def device_update_def map_of_dict_update)

lemma ieee_device_update:
  "distinct (map fst (info dev)) \<Longrightarrow> truthy (ieee dev) \<Longrightarrow>
   ieee (device_update d dev) = ieee dev"
  by (auto simp: ieee_def py_get_def device_update_def map_of_dict_update map_add_def
      split: option.splits)

lemma endpoints_device_update_empty:
  "endpoints dev = [] \<Longrightarrow> endpoints (device_update d dev) = endpoints d"
  by (simp add: device_update_def dict_update_def)

lemma set_device_update_branch:
  assumes "addr dev = Some a" and "map_of (devices st) a = Some existing"
  shows "set_device dev st =
     (Return (),
      st\<lparr>devices := AList.update a (device_update existing dev) (devices st),
         signals := signals st @ [DeviceUpdated (device_update existing dev)]\<rparr>)"
  using assms by (simp add: set_device_def Let_def dispatch_signal_def)

lemma refresh_device_devices [simp]: "devices (snd (refresh_device a st)) = devices st"
  and refresh_device_signals [simp]: "signals (snd (refresh_device a st)) = signals st"
  using refresh_device_same_directory [of a st] by (simp_all add: same_directory_def)

lemma set_device_add_branch:
  assumes "addr dev = Some a" and "map_of (devices st) a = None"
    and "get_device_from_ieee st (ieee dev) = None"
  shows "devices (snd (set_device dev st)) = devices st @ [(a, dev)]"
    and "signals (snd (set_device dev st)) = signals st @ [DeviceAdded dev]"
proof -
  have "a \<notin> fst ` set (devices st)"
    using assms(2) by (simp add: map_of_eq_None_iff)
  then show "devices (snd (set_device dev st)) = devices st @ [(a, dev)]"
    and "signals (snd (set_device dev st)) = signals st @ [DeviceAdded dev]"
    using assms by (simp_all add: set_device_def Let_def dispatch_signal_def update_new_key)
qed

lemma set_device_rename_branch:
  assumes "addr dev = Some a" and "map_of (devices st) a = None"
    and "get_device_from_ieee st (ieee dev) = Some (k, d)"
    and "addr d = Some k" and "map_of (devices st) k = Some d0"
  shows "devices (snd (set_device dev st)) = AList.delete k (devices st) @ [(a, device_update d dev)]"
    and "signals (snd (set_device dev st)) = signals st @ [DeviceRenamed k a]"
proof -
  have notin: "a \<notin> fst ` set (devices st)"
    using assms(2) by (simp add: map_of_eq_None_iff)
  have ne: "k \<noteq> a" using assms(2,5) by auto
  have t: "device_truthy d"
    using assms(4) by (auto simp: device_truthy_def addr_def)
  have a': "a \<notin> fst ` set (AList.update k (device_update d dev) (devices st))"
    using notin ne by (simp add: dom_update)
  have present: "map_of (AList.update a (device_update d dev)
      (AList.update k (device_update d dev) (devices st))) k \<noteq> None"
    by (simp add: update_conv')
  have del: "AList.delete k (AList.update a (device_update d dev)
      (AList.update k (device_update d dev) (devices st)))
    = AList.delete k (devices st) @ [(a, device_update d dev)]"
    using ne by (simp add: update_new_key [OF a'] delete_append delete_update_same)
  show "devices (snd (set_device dev st)) = AList.delete k (devices st) @ [(a, device_update d dev)]"
    and "signals (snd (set_device dev st)) = signals st @ [DeviceRenamed k a]"
    using assms(1-4) t present del
    by (auto simp: set_device_def Let_def dispatch_signal_def)
qed

lemma find_Some_in: "find P xs = Some x \<Longrightarrow> x \<in> set xs \<and> P x"
  by (induction xs) (auto split: if_splits)

lemma find_by_ieee:
  assumes "distinct (map fst ds)" and "unique_ieee ds"
    and "map_of ds old = Some d" and "ieee d = i" and "truthy i"
  shows "find (\<lambda>(k, d). ieee d = i) ds = Some (old, d)"
proof -
  have mem: "(old, d) \<in> set ds" using assms(3) by (rule map_of_SomeD)
  then have "find (\<lambda>(k, d). ieee d = i) ds \<noteq> None"
    using assms(4) by (auto simp: find_None_iff)
  then obtain k' d' where f: "find (\<lambda>(k, d). ieee d = i) ds = Some (k', d')"
    by (cases "find (\<lambda>(k, d). ieee d = i) ds") auto
  then have mem': "(k', d') \<in> set ds" and i': "ieee d' = i"
    using find_Some_in [of "\<lambda>(k, d). ieee d = i" ds "(k', d')"] by simp_all
  have "k' = old"
    using assms(2) mem mem' i' assms(4,5) by (fastforce simp: unique_ieee_def)
  moreover have "d' = d"
    using assms(1) mem mem' \<open>k' = old\<close> by (metis map_of_is_SomeI option.inject)
  ultimately show ?thesis using f by simp
qed

lemma directory_wf_rename:
  assumes "directory_wf ds" and "map_of ds a = None" and "addr d' = Some a"
  shows "directory_wf (AList.delete k ds @ [(a, d')])"
proof -
  have "a \<notin> fst ` set ds" using assms(2) by (simp add: map_of_eq_None_iff)
  then have "a \<notin> fst ` set (AList.delete k ds)"
    using dom_delete_subset [of k ds] by auto
  moreover have "distinct (map fst (AList.delete k ds))"
    using assms(1) by (simp add: directory_wf_def distinct_delete)
  moreover have "\<forall>(k', d)\<in>set (AList.delete k ds). addr d = Some k'"
    using assms(1) by (auto simp: directory_wf_def AList.delete_eq)
  ultimately show ?thesis using assms(3) by (auto simp: directory_wf_def)
qed

lemma unique_ieee_rename:
  assumes "unique_ieee ds" and "distinct (map fst ds)" and "map_of ds k = Some d"
    and "ieee d' = ieee d" and "map_of ds a = None"
  shows "unique_ieee (AList.delete k ds @ [(a, d')])"
proof -
  have mem: "(k, d) \<in> set ds" using assms(3) by (rule map_of_SomeD)
  have sub: "set (AList.delete k ds) = {(k', e). (k', e) \<in> set ds \<and> k' \<noteq> k}"
    by (auto simp: AList.delete_eq)
  have old: "k1 = k2"
    if "(k1, d1) \<in> set (AList.delete k ds)" "(k2, d2) \<in> set (AList.delete k ds)"
      "truthy (ieee d1)" "ieee d1 = ieee d2" for k1 d1 k2 d2
    using that assms(1) sub by (fastforce simp: unique_ieee_def)
  have none1: False
    if "(k1, d1) \<in> set (AList.delete k ds)" "truthy (ieee d1)" "ieee d1 = ieee d'" for k1 d1
  proof -
    from that(1) sub have "(k1, d1) \<in> set ds" "k1 \<noteq> k" by auto
    moreover have "ieee d1 = ieee d" using that(3) assms(4) by simp
    ultimately show False using assms(1) mem that(2) by (fastforce simp: unique_ieee_def)
  qed
  have none2: False
    if "(k2, d2) \<in> set (AList.delete k ds)" "truthy (ieee d')" "ieee d' = ieee d2" for k2 d2
  proof -
    from that(1) sub have "(k2, d2) \<in> set ds" "k2 \<noteq> k" by auto
    moreover have "truthy (ieee d)" "ieee d = ieee d2" using that(2,3) assms(4) by simp_all
    ultimately show False using assms(1) mem by (fastforce simp: unique_ieee_def)
  qed
  show ?thesis
    unfolding unique_ieee_def
    using old none1 none2 by (auto; blast)
qed

text \<open>
  Claim C1, as amended. In a directory where no two tracked devices share a non-empty
  IEEE, \<^verbatim>\<open>_set_device\<close> called with a device whose address is not tracked yet and
  whose non-empty IEEE is that of a tracked device moves that device to the new address,
  merged with the new information (its endpoints are kept: the new device of a device
  list or an announce has none); the old address is no longer tracked; exactly one
  ``renamed'' signal with the old and the new address is dispatched; and afterwards still
  no two tracked devices share a non-empty IEEE.
\<close>

theorem set_device_renames_known_ieee:
  assumes "directory_wf (devices st)" and "unique_ieee (devices st)"
    and "distinct (map fst (info dev))"
    and "addr dev = Some new_addr" and "map_of (devices st) new_addr = None"
    and "map_of (devices st) old_addr = Some d"
    and "ieee d = ieee dev" and "truthy (ieee dev)"
  shows "devices (snd (set_device dev st))
           = AList.delete old_addr (devices st) @ [(new_addr, device_update d dev)] \<and>
         map_of (devices (snd (set_device dev st))) new_addr = Some (device_update d dev) \<and>
         map_of (devices (snd (set_device dev st))) old_addr = None \<and>
         (endpoints dev = [] \<longrightarrow> endpoints (device_update d dev) = endpoints d) \<and>
         signals (snd (set_device dev st)) = signals st @ [DeviceRenamed old_addr new_addr] \<and>
         unique_ieee (devices (snd (set_device dev st))) \<and>
         directory_wf (devices (snd (set_device dev st)))"
proof -
  have dist: "distinct (map fst (devices st))"
    using assms(1) by (simp add: directory_wf_def)
  have ad: "addr d = Some old_addr"
    using assms(1) map_of_SomeD [OF assms(6)] by (auto simp: directory_wf_def)
  have g: "get_device_from_ieee st (ieee dev) = Some (old_addr, d)"
    using find_by_ieee [OF dist assms(2) assms(6) assms(7) assms(8)] assms(8)
    by (simp add: get_device_from_ieee_def)
  note r = set_device_rename_branch [OF assms(4) assms(5) g ad assms(6)]
  have ne: "old_addr \<noteq> new_addr" using assms(5,6) by auto
  have a': "addr (device_update d dev) = Some new_addr"
    by (rule addr_device_update [OF assms(3) assms(4)])
  have i': "ieee (device_update d dev) = ieee d"
    using ieee_device_update [OF assms(3) assms(8)] assms(7) by simp
  have notin: "new_addr \<notin> fst ` set (AList.delete old_addr (devices st))"
    using assms(5) dom_delete_subset [of old_addr "devices st"]
    by (auto simp: map_of_eq_None_iff)
  have m1: "map_of (AList.delete old_addr (devices st) @ [(new_addr, device_update d dev)]) new_addr
      = Some (device_update d dev)"
  proof -
    have "map_of (AList.delete old_addr (devices st)) new_addr = None"
      using notin by (simp add: map_of_eq_None_iff)
    then show ?thesis by (simp add: map_add_def)
  qed
  have m2: "map_of (AList.delete old_addr (devices st) @ [(new_addr, device_update d dev)]) old_addr
      = None"
    using ne by (simp add: delete_conv')
  show ?thesis
    unfolding r
    using m1 m2 endpoints_device_update_empty [of dev d]
      unique_ieee_rename [OF assms(2) dist assms(6) i' assms(5)]
      directory_wf_rename [OF assms(1) assms(5) a']
    by simp
qed

lemma set_update_subset: "set (AList.update k v al) \<subseteq> insert (k, v) (set al)"
  by (induction al) auto

lemma directory_wf_update:
  assumes "directory_wf ds" and "addr d' = Some a"
  shows "directory_wf (AList.update a d' ds)"
  using assms set_update_subset [of a d' ds]
  by (auto simp: directory_wf_def distinct_update)

lemma set_device_directory_wf:
  assumes "directory_wf (devices st)" and "distinct (map fst (info dev))"
  shows "directory_wf (devices (snd (set_device dev st)))"
proof (cases "addr dev")
  case None
  with assms show ?thesis by (simp add: set_device_def)
next
  case (Some a)
  show ?thesis
  proof (cases "map_of (devices st) a")
    case existing: (Some e)
    show ?thesis
      unfolding set_device_update_branch [OF Some existing]
      using directory_wf_update [OF assms(1) addr_device_update [OF assms(2) Some]]
      by simp
  next
    case None
    have dist: "distinct (map fst (devices st))"
      using assms(1) by (simp add: directory_wf_def)
    show ?thesis
    proof (cases "get_device_from_ieee st (ieee dev)")
      case none: None
      have "directory_wf (devices st @ [(a, dev)])"
        using assms(1) None Some by (auto simp: directory_wf_def map_of_eq_None_iff)
      then show ?thesis
        unfolding set_device_add_branch [OF Some None none] .
    next
      case found: (Some kd)
      obtain k d where kd: "kd = (k, d)" by (cases kd)
      have mem: "(k, d) \<in> set (devices st)"
        using found kd find_Some_in [of _ "devices st" "(k, d)"]
        by (auto simp: get_device_from_ieee_def split: if_splits)
      then have ad: "addr d = Some k" using assms(1) by (auto simp: directory_wf_def)
      have m: "map_of (devices st) k = Some d" using dist mem by simp
      show ?thesis
        unfolding set_device_rename_branch [OF Some None found [unfolded kd] ad m]
        by (rule directory_wf_rename [OF assms(1) None addr_device_update [OF assms(2) Some]])
    qed
  qed
qed

lemma directory_wf_delete:
  assumes "directory_wf ds"
  shows "directory_wf (AList.delete k ds)"
proof -
  have "distinct (map fst (AList.delete k ds))"
    using assms by (simp add: directory_wf_def distinct_delete)
  moreover have "set (AList.delete k ds) \<subseteq> set ds"
    by (auto simp: AList.delete_eq)
  ultimately show ?thesis using assms by (auto simp: directory_wf_def)
qed

lemma remove_device_directory_wf:
  "directory_wf (devices st) \<Longrightarrow> directory_wf (devices (snd (remove_device a st)))"
  using directory_wf_delete [of "devices st" a]
  by (simp add: remove_device_def dispatch_signal_def split: option.splits)

lemma tag_missing_directory_wf:
  assumes "directory_wf (devices st)"
  shows "directory_wf (devices (snd (tag_missing last_24h a st)))"
proof (cases "map_of (devices st) a")
  case None
  with assms show ?thesis by (simp add: tag_missing_def)
next
  case (Some d)
  have "addr d = Some a"
    using assms map_of_SomeD [OF Some] by (auto simp: directory_wf_def)
  then have "addr (d\<lparr>missing := True\<rparr>) = Some a" by (simp add: addr_def)
  then have "directory_wf (AList.update a (d\<lparr>missing := True\<rparr>) (devices st))"
    by (rule directory_wf_update [OF assms])
  with assms Some show ?thesis
    by (auto simp: tag_missing_def Let_def dispatch_signal_def split: pyval.splits)
qed

theorem set_device_renames_known_ieee_witness:
  "devices (snd (set_device example_sensor_moved (example_state :: unit zigate)))
     = [(PStr ''9f01'', device_update example_sensor example_sensor_moved)] \<and>
   endpoints (device_update example_sensor example_sensor_moved) = endpoints example_sensor \<and>
   signals (snd (set_device example_sensor_moved (example_state :: unit zigate)))
     = [DeviceRenamed (PStr ''1a2b'') (PStr ''9f01'')] \<and>
   unique_ieee (devices (snd (set_device example_sensor_moved (example_state :: unit zigate))))"
proof -
  have h: "directory_wf (devices (example_state :: unit zigate))"
    "unique_ieee (devices (example_state :: unit zigate))"
    "distinct (map fst (info example_sensor_moved))"
    "addr example_sensor_moved = Some (PStr ''9f01'')"
    "map_of (devices (example_state :: unit zigate)) (PStr ''9f01'') = None"
    "map_of (devices (example_state :: unit zigate)) (PStr ''1a2b'') = Some example_sensor"
    "ieee example_sensor = ieee example_sensor_moved"
    "truthy (ieee example_sensor_moved)"
    by (simp_all add: example_state_def directory_wf_def unique_ieee_def addr_def ieee_def
        py_get_def example_sensor_def example_sensor_moved_def Device_def)
  have e: "endpoints example_sensor_moved = []"
    by (simp add: example_sensor_moved_def Device_def)
  have d: "AList.delete (PStr ''1a2b'') (devices (example_state :: unit zigate)) = []"
    "signals (example_state :: unit zigate) = []"
    by (simp_all add: example_state_def)
  show ?thesis
    using set_device_renames_known_ieee [OF h] e d by (simp add: unique_ieee_def)
qed

lemma example_two_devices_directory:
  "devices example_two_devices = [(PStr ''1111'', example_lamp), (PStr ''2222'', example_plug)]"
  "signals example_two_devices = [DeviceAdded example_lamp, DeviceAdded example_plug]"
proof -
  have a1: "addr example_lamp = Some (PStr ''1111'')"
    and a2: "addr example_plug = Some (PStr ''2222'')"
    by (simp_all add: addr_def example_lamp_def example_plug_def Device_def)
  have e: "devices example_empty_directory = []" "signals example_empty_directory = []"
    by (simp_all add: example_empty_directory_def example_state_def)
  have n1: "map_of (devices example_empty_directory) (PStr ''1111'') = None"
    and g1: "get_device_from_ieee example_empty_directory (ieee example_lamp) = None"
    by (simp_all add: e get_device_from_ieee_def)
  define st1 where "st1 = snd (set_device example_lamp example_empty_directory)"
  have d1: "devices st1 = [(PStr ''1111'', example_lamp)]"
    and s1: "signals st1 = [DeviceAdded example_lamp]"
    unfolding st1_def using set_device_add_branch [OF a1 n1 g1] e by simp_all
  have n2: "map_of (devices st1) (PStr ''2222'') = None"
    and g2: "get_device_from_ieee st1 (ieee example_plug) = None"
    by (simp_all add: d1 get_device_from_ieee_def ieee_def py_get_def example_lamp_def
        example_plug_def Device_def)
  show "devices example_two_devices
      = [(PStr ''1111'', example_lamp), (PStr ''2222'', example_plug)]"
    and "signals example_two_devices = [DeviceAdded example_lamp, DeviceAdded example_plug]"
    unfolding example_two_devices_def st1_def [symmetric]
    using set_device_add_branch [OF a2 n2 g2] d1 s1 by simp_all
qed

text \<open>
  Claim C1 as stated covers every device whose IEEE is tracked under another address.
  When the address of the new device is tracked as well, \<^verbatim>\<open>_set_device\<close> takes its
  first branch: after the announces of a lamp and a plug, an announce with the IEEE of
  the plug under the address of the lamp is merged into the lamp, the signal is
  ``updated'', the plug keeps its address, and two tracked devices share an IEEE.
\<close>

theorem set_device_tracked_address_counterexample:
  "devices example_two_devices
     = [(PStr ''1111'', example_lamp), (PStr ''2222'', example_plug)] \<and>
   addr example_plug_announce = Some (PStr ''1111'') \<and>
   truthy (ieee example_plug_announce) \<and>
   ieee example_plug_announce = ieee example_plug \<and>
   devices (snd (set_device example_plug_announce example_two_devices))
     = [(PStr ''1111'', device_update example_lamp example_plug_announce),
        (PStr ''2222'', example_plug)] \<and>
   ieee (device_update example_lamp example_plug_announce) = ieee example_plug \<and>
   signals (snd (set_device example_plug_announce example_two_devices))
     = signals example_two_devices
       @ [DeviceUpdated (device_update example_lamp example_plug_announce)] \<and>
   \<not> unique_ieee (devices (snd (set_device example_plug_announce example_two_devices)))"
proof -
  have a: "addr example_plug_announce = Some (PStr ''1111'')"
    by (simp add: addr_def example_plug_announce_def Device_def)
  have m: "map_of (devices example_two_devices) (PStr ''1111'') = Some example_lamp"
    by (simp add: example_two_devices_directory)
  have i: "truthy (ieee example_plug_announce)"
    "ieee example_plug_announce = ieee example_plug"
    "ieee (device_update example_lamp example_plug_announce) = ieee example_plug"
    by (simp_all add: ieee_def py_get_def example_plug_announce_def example_plug_def
        example_lamp_def Device_def device_update_def dict_update_def)
  have d: "devices (snd (set_device example_plug_announce example_two_devices))
     = [(PStr ''1111'', device_update example_lamp example_plug_announce),
        (PStr ''2222'', example_plug)]"
    by (simp add: set_device_update_branch [OF a m] example_two_devices_directory)
  have u: "\<not> unique_ieee [(PStr ''1111'', device_update example_lamp example_plug_announce),
        (PStr ''2222'', example_plug)]"
    using i by (simp add: unique_ieee_def)
  show ?thesis
    using a i d u
    by (simp add: set_device_update_branch [OF a m] example_two_devices_directory)
qed

section \<open>Properties of the status wait\<close>



lemma status_get_script [simp]: "status_get (st\<lparr>script := x\<rparr>) cmd = status_get st cmd"
  by (simp add: status_get_def)







end
